theory Spec2Isabelle
  imports Main
begin

section \<open>Python values, exceptions and the built-in operations the scripts use\<close>

text \<open>
  The three scripts exchange parsed JSON with the remote service (\<^verbatim>\<open>response.json()\<close>).
  A parsed JSON value is a Python \<^verbatim>\<open>None\<close>, a bool, a number, a \<^verbatim>\<open>str\<close>, a list or a
  dict; a dict is kept as an association list in insertion order and is looked up with
  \<^const>\<open>map_of\<close>. Only integer numbers are represented.
\<close>

datatype json =
    JNull
  | JBool bool
  | JInt int
  | JStr string
  | JList "json list"
  | JObj "(string \<times> json) list"

text \<open>
  Every \<^verbatim>\<open>raise Exception(f"...{x}")\<close> of the scripts interpolates at most one value at
  the end of a literal text. \<open>Fmt p v\<close> is the message \<^verbatim>\<open>f"{p}{v}"\<close>: the literal \<open>p\<close>
  followed by \<^verbatim>\<open>str(v)\<close>. A Python string interpolates as itself, so the text \<^verbatim>\<open>str(e)\<close> of
  a caught exception is written \<open>JStr m\<close>.
\<close>

datatype message = Text string | Fmt string json

text \<open>
  The scripts raise the plain \<^verbatim>\<open>Exception\<close> in every phase; the phases differ by the literal
  text of the message. A submission failure is \<^verbatim>\<open>API request failed:\<close> (transport) or
  \<^verbatim>\<open>Task submission failed:\<close> (error field), a status failure \<^verbatim>\<open>Status check failed:\<close> or
  \<^verbatim>\<open>No jobs found in status response\<close>, a failed task \<^verbatim>\<open>Task failed:\<close>, the exhausted loop
  \<^verbatim>\<open>Task processing timed out\<close>, a manifest failure \<^verbatim>\<open>Download request failed:\<close>. The other
  constructors are the exceptions Python itself raises on the paths the scripts leave
  unguarded.
\<close>

datatype pyexc =
    Exception message
  | ValueError message
  | AttributeError
  | TypeError
  | OSError
  | OverflowError

text \<open>Truth value of a Python object (\<^verbatim>\<open>if x:\<close>, \<^verbatim>\<open>if not x:\<close>).\<close>

fun truthy :: "json \<Rightarrow> bool" where
  "truthy JNull = False"
| "truthy (JBool b) = b"
| "truthy (JInt i) = (i \<noteq> 0)"
| "truthy (JStr s) = (s \<noteq> [])"
| "truthy (JList xs) = (xs \<noteq> [])"
| "truthy (JObj kvs) = (kvs \<noteq> [])"

fun starts_with :: "string \<Rightarrow> string \<Rightarrow> bool" where
  "starts_with [] s = True"
| "starts_with (p # ps) [] = False"
| "starts_with (p # ps) (c # cs) = (p = c \<and> starts_with ps cs)"

fun contains :: "string \<Rightarrow> string \<Rightarrow> bool" where
  "contains p [] = (p = [])"
| "contains p (c # cs) = (starts_with p (c # cs) \<or> contains p cs)"

text \<open>
  \<^verbatim>\<open>k in x\<close> for a string \<open>k\<close>: key membership in a dict, element membership in a list,
  substring test in a string, \<^verbatim>\<open>TypeError\<close> on \<^verbatim>\<open>None\<close>, a bool or a number.
\<close>

fun py_in :: "string \<Rightarrow> json \<Rightarrow> pyexc + bool" where
  "py_in k (JObj kvs) = Inr (map_of kvs k \<noteq> None)"
| "py_in k (JList xs) = Inr (JStr k \<in> set xs)"
| "py_in k (JStr s) = Inr (contains k s)"
| "py_in k JNull = Inl TypeError"
| "py_in k (JBool b) = Inl TypeError"
| "py_in k (JInt i) = Inl TypeError"

text \<open>\<^verbatim>\<open>x.get(k, default)\<close>: only a dict has the method.\<close>

fun py_get :: "json \<Rightarrow> string \<Rightarrow> json \<Rightarrow> pyexc + json" where
  "py_get (JObj kvs) k d = Inr (case map_of kvs k of Some v \<Rightarrow> v | None \<Rightarrow> d)"
| "py_get JNull k d = Inl AttributeError"
| "py_get (JBool b) k d = Inl AttributeError"
| "py_get (JInt i) k d = Inl AttributeError"
| "py_get (JStr s) k d = Inl AttributeError"
| "py_get (JList xs) k d = Inl AttributeError"

text \<open>
  \<^verbatim>\<open>len(x)\<close> followed by \<^verbatim>\<open>for y in x\<close>: the elements of a list, the keys of a dict, the
  characters of a string; \<^verbatim>\<open>TypeError\<close> on \<^verbatim>\<open>None\<close>, a bool or a number.
\<close>

fun py_iter :: "json \<Rightarrow> pyexc + json list" where
  "py_iter (JList xs) = Inr xs"
| "py_iter (JObj kvs) = Inr (map (\<lambda>kv. JStr (fst kv)) kvs)"
| "py_iter (JStr s) = Inr (map (\<lambda>c. JStr [c]) s)"
| "py_iter JNull = Inl TypeError"
| "py_iter (JBool b) = Inl TypeError"
| "py_iter (JInt i) = Inl TypeError"

text \<open>\<^verbatim>\<open>str(n)\<close> of an int, \<^verbatim>\<open>str(b).lower()\<close> of a bool and \<^verbatim>\<open>sep.join(xs)\<close>.\<close>

fun str_nat :: "nat \<Rightarrow> string" where
  "str_nat n =
     (if n < 10 then [''0123456789'' ! n]
      else str_nat (n div 10) @ [''0123456789'' ! (n mod 10)])"

declare str_nat.simps [simp del]

definition str_int :: "int \<Rightarrow> string" where
  "str_int i = (if i < 0 then CHR ''-'' # str_nat (nat (- i)) else str_nat (nat i))"

definition str_bool_lower :: "bool \<Rightarrow> string" where
  "str_bool_lower b = (if b then ''true'' else ''false'')"

fun join :: "string \<Rightarrow> string list \<Rightarrow> string" where
  "join sep [] = []"
| "join sep [x] = x"
| "join sep (x # y # ys) = x @ sep @ join sep (y # ys)"

subsection \<open>Paths (\<^verbatim>\<open>os.path\<close> on POSIX)\<close>

definition basename :: "string \<Rightarrow> string" where
  "basename p = rev (takeWhile (\<lambda>c. c \<noteq> CHR ''/'') (rev p))"

text \<open>
  \<^verbatim>\<open>os.path.splitext(p)[1]\<close>: the part of the last path component from its last dot on,
  unless only dots precede that dot in the component.
\<close>

definition splitext_ext :: "string \<Rightarrow> string" where
  "splitext_ext p =
     (let b = basename p;
          e = rev (takeWhile (\<lambda>c. c \<noteq> CHR ''.'') (rev b));
          stem = take (length b - Suc (length e)) b
      in if CHR ''.'' \<in> set b \<and> list_ex (\<lambda>c. c \<noteq> CHR ''.'') stem then CHR ''.'' # e else [])"

text \<open>\<^verbatim>\<open>os.path.join(a, b)\<close> of two strings.\<close>

definition path_join :: "string \<Rightarrow> string \<Rightarrow> string" where
  "path_join a b =
     (if starts_with ''/'' b then b
      else if a = [] \<or> last a = CHR ''/'' then a @ b
      else a @ ''/'' @ b)"

text \<open>\<^verbatim>\<open>s.lower()\<close> on ASCII text.\<close>

definition lower_char :: "char \<Rightarrow> char" where
  "lower_char c =
     (case map_of (zip ''ABCDEFGHIJKLMNOPQRSTUVWXYZ'' ''abcdefghijklmnopqrstuvwxyz'') c of
        Some l \<Rightarrow> l
      | None \<Rightarrow> c)"

definition lower :: "string \<Rightarrow> string" where
  "lower s = map lower_char s"

section \<open>\<^verbatim>\<open>image_utils.py\<close>: \<^verbatim>\<open>ImageUtils.validate_image\<close>\<close>

text \<open>
  What the function reads from the outside: \<^verbatim>\<open>os.path.exists\<close>, \<^verbatim>\<open>os.path.getsize\<close> and
  \<^verbatim>\<open>Image.open(path).size\<close>, the last one either raising (\<open>Inl\<close> the text of the
  exception) or giving the pair (width, height).
\<close>

record filesystem =
  path_exists :: "string \<Rightarrow> bool"
  path_getsize :: "string \<Rightarrow> int"
  image_size :: "string \<Rightarrow> string + (int \<times> int)"

definition SUPPORTED_FORMATS :: "(string \<times> string list) list" where
  "SUPPORTED_FORMATS =
     [(''JPEG'', [''.jpg'', ''.jpeg'']), (''PNG'', [''.png'']), (''WEBP'', [''.webp''])]"

definition MAX_FILE_SIZE :: int where
  "MAX_FILE_SIZE = 16 * 1024 * 1024"

definition MIN_RESOLUTION :: "int \<times> int" where
  "MIN_RESOLUTION = (512, 512)"

definition MAX_RESOLUTION :: "int \<times> int" where
  "MAX_RESOLUTION = (4096, 4096)"

definition valid_extensions :: "string list" where
  "valid_extensions = concat (map snd SUPPORTED_FORMATS)"

definition too_low :: string where
  "too_low = ''Image resolution is too low. Minimum resolution is 512x512''"

definition too_high :: string where
  "too_high = ''Image resolution is too high. Maximum resolution is 4096x4096''"

text \<open>
  The resolution checks raise inside the \<^verbatim>\<open>try\<close> whose handler catches every
  \<^verbatim>\<open>Exception\<close>, so their messages come out wrapped, like a failure of \<^verbatim>\<open>Image.open\<close>.
\<close>

definition validate_image :: "filesystem \<Rightarrow> string \<Rightarrow> pyexc + bool" where
  "validate_image fs image_path =
     (if \<not> path_exists fs image_path then
        Inl (Exception (Text ''Image file does not exist''))
      else if path_getsize fs image_path > MAX_FILE_SIZE then
        Inl (Exception (Text ''Image file size exceeds 16MB limit''))
      else if lower (splitext_ext image_path) \<notin> set valid_extensions then
        Inl (Exception (Text
          ''Unsupported image format. Please use one of: .jpg, .jpeg, .png, .webp''))
      else
        (case image_size fs image_path of
           Inl m \<Rightarrow> Inl (Exception (Fmt ''Failed to validate image: '' (JStr m)))
         | Inr (width, height) \<Rightarrow>
             if width < fst MIN_RESOLUTION \<or> height < snd MIN_RESOLUTION then
               Inl (Exception (Fmt ''Failed to validate image: '' (JStr too_low)))
             else if width > fst MAX_RESOLUTION \<or> height > snd MAX_RESOLUTION then
               Inl (Exception (Fmt ''Failed to validate image: '' (JStr too_high)))
             else Inr True))"

section \<open>\<^verbatim>\<open>api_client.py\<close>: \<^verbatim>\<open>Hyper3DAPIClient\<close>\<close>

text \<open>
  The client holds the API key (\<^verbatim>\<open>api_key or os.environ.get("HYPER3D_API_KEY")\<close>, which
  may be \<^verbatim>\<open>None\<close> or empty). The keyword arguments of \<^verbatim>\<open>submit_generation_task\<close> are a
  record, with the types the command line gives them; an image is a path to be read or
  an already opened file object.
\<close>

record client =
  api_key :: "string option"

datatype image = Image_Path string | Image_File string

datatype upload = Named_Bytes string string | File_Object string

record request =
  images :: "image list option"
  prompt :: "string option"
  tier :: string
  geometry_file_format :: string
  material :: string
  quality :: string
  use_original_alpha :: bool
  seed :: "int option"
  quality_override :: "int option"
  TAPose :: bool
  bbox_condition :: "int list option"
  mesh_mode :: "string option"
  addons :: "string list option"
  preview_render :: bool

text \<open>The default values of the keyword arguments of \<^verbatim>\<open>submit_generation_task\<close>.\<close>

definition default_request :: request where
  "default_request =
     \<lparr>images = None, prompt = None, tier = ''Gen-2'', geometry_file_format = ''glb'',
      material = ''PBR'', quality = ''medium'', use_original_alpha = False, seed = None,
      quality_override = None, TAPose = False, bbox_condition = None,
      mesh_mode = Some ''Quad'', addons = None, preview_render = False\<rparr>"

text \<open>
  The outside world of one run: \<open>read_file\<close> is \<^verbatim>\<open>open(path, 'rb').read()\<close> (\<open>None\<close> when
  it raises \<^verbatim>\<open>OSError\<close>); each of the three POST requests, with \<^verbatim>\<open>raise_for_status()\<close> and
  \<^verbatim>\<open>response.json()\<close>, either raises a \<^verbatim>\<open>RequestException\<close> (\<open>Inl\<close> its text) or gives
  the parsed body. The status endpoint is asked once per attempt and answers by attempt
  number (from 0). \<open>time_sleep\<close> is \<^verbatim>\<open>time.sleep(s)\<close> for \<open>s\<close> not negative: \<open>None\<close> when the
  call returns after the wait, \<open>Some\<close> the refusal when the platform cannot wait that long
  (\<^verbatim>\<open>OverflowError\<close> beyond the range of the C time type, \<^verbatim>\<open>OSError\<close> from the system call).
\<close>

datatype sleep_error = Sleep_Overflow | Sleep_OSError

fun sleep_exception :: "sleep_error \<Rightarrow> pyexc" where
  "sleep_exception Sleep_Overflow = OverflowError"
| "sleep_exception Sleep_OSError = OSError"

record transport =
  read_file :: "string \<Rightarrow> string option"
  post_rodin :: "string + json"
  post_status :: "nat \<Rightarrow> string + json"
  post_download :: "string + json"
  time_sleep :: "int \<Rightarrow> sleep_error option"

text \<open>
  What a run does to the outside, in order: the submission with its file parts and form
  fields, a status request with the subscription key it sends, the download request with
  the task identifier it sends, and \<^verbatim>\<open>time.sleep\<close>. Console output is left out.
\<close>

datatype event =
    Post_Rodin "upload list" "(string \<times> string) list"
  | Post_Status json
  | Post_Download json
  | Sleep int

text \<open>The submission request and the download request among the events of a run.\<close>

fun is_submission :: "event \<Rightarrow> bool" where
  "is_submission (Post_Rodin files form) = True"
| "is_submission (Post_Status k) = False"
| "is_submission (Post_Download u) = False"
| "is_submission (Sleep s) = False"

fun is_download :: "event \<Rightarrow> bool" where
  "is_download (Post_Download u) = True"
| "is_download (Post_Rodin files form) = False"
| "is_download (Post_Status k) = False"
| "is_download (Sleep s) = False"

subsection \<open>\<^verbatim>\<open>submit_generation_task\<close>\<close>

fun read_images :: "transport \<Rightarrow> image list \<Rightarrow> pyexc + upload list" where
  "read_images t [] = Inr []"
| "read_images t (Image_Path p # rest) =
     (case read_file t p of
        None \<Rightarrow> Inl OSError
      | Some bytes \<Rightarrow>
          (case read_images t rest of
             Inl x \<Rightarrow> Inl x
           | Inr files \<Rightarrow> Inr (Named_Bytes (basename p) bytes # files)))"
| "read_images t (Image_File f # rest) =
     (case read_images t rest of
        Inl x \<Rightarrow> Inl x
      | Inr files \<Rightarrow> Inr (File_Object f # files))"

text \<open>
  The form fields: seven are always sent; \<^verbatim>\<open>prompt\<close>, \<^verbatim>\<open>bbox_condition\<close>, \<^verbatim>\<open>mesh_mode\<close> and
  \<^verbatim>\<open>addons\<close> are guarded by \<^verbatim>\<open>if x:\<close>, \<^verbatim>\<open>seed\<close> and \<^verbatim>\<open>quality_override\<close> by
  \<^verbatim>\<open>if x is not None:\<close>.
\<close>

definition form_data :: "request \<Rightarrow> (string \<times> string) list" where
  "form_data r =
     [(''tier'', tier r),
      (''geometry_file_format'', geometry_file_format r),
      (''material'', material r),
      (''quality'', quality r),
      (''use_original_alpha'', str_bool_lower (use_original_alpha r)),
      (''TAPose'', str_bool_lower (TAPose r)),
      (''preview_render'', str_bool_lower (preview_render r))]
     @ (case prompt r of
          None \<Rightarrow> []
        | Some p \<Rightarrow> if p \<noteq> [] then [(''prompt'', p)] else [])
     @ (case seed r of
          None \<Rightarrow> []
        | Some n \<Rightarrow> [(''seed'', str_int n)])
     @ (case quality_override r of
          None \<Rightarrow> []
        | Some n \<Rightarrow> [(''quality_override'', str_int n)])
     @ (case bbox_condition r of
          None \<Rightarrow> []
        | Some b \<Rightarrow> if b \<noteq> [] then [(''bbox_condition'', join '','' (map str_int b))] else [])
     @ (case mesh_mode r of
          None \<Rightarrow> []
        | Some m \<Rightarrow> if m \<noteq> [] then [(''mesh_mode'', m)] else [])
     @ (case addons r of
          None \<Rightarrow> []
        | Some a \<Rightarrow> if a \<noteq> [] then [(''addons'', join '','' a)] else [])"

definition key_required :: string where
  "key_required = ''API key is required. Please set HYPER3D_API_KEY environment variable or pass it to the constructor.''"

definition submit_generation_task ::
  "client \<Rightarrow> transport \<Rightarrow> request \<Rightarrow> event list \<times> (pyexc + json)" where
  "submit_generation_task c t r =
     (if api_key c = None \<or> api_key c = Some [] then ([], Inl (ValueError (Text key_required)))
      else
        (case read_images t (case images r of None \<Rightarrow> [] | Some imgs \<Rightarrow> imgs) of
           Inl x \<Rightarrow> ([], Inl x)
         | Inr files \<Rightarrow>
             ([Post_Rodin files (form_data r)],
              (case post_rodin t of
                 Inl m \<Rightarrow> Inl (Exception (Fmt ''API request failed: '' (JStr m)))
               | Inr result \<Rightarrow> Inr result))))"

subsection \<open>\<^verbatim>\<open>check_task_status\<close> and \<^verbatim>\<open>download_results\<close>\<close>

definition check_task_status :: "transport \<Rightarrow> nat \<Rightarrow> json \<Rightarrow> event list \<times> (pyexc + json)" where
  "check_task_status t attempt subscription_key =
     ([Post_Status subscription_key],
      (case post_status t attempt of
         Inl m \<Rightarrow> Inl (Exception (Fmt ''Status check failed: '' (JStr m)))
       | Inr result \<Rightarrow> Inr result))"

definition download_results :: "transport \<Rightarrow> json \<Rightarrow> event list \<times> (pyexc + json)" where
  "download_results t task_uuid =
     ([Post_Download task_uuid],
      (case post_download t of
         Inl m \<Rightarrow> Inl (Exception (Fmt ''Download request failed: '' (JStr m)))
       | Inr result \<Rightarrow> Inr result))"

subsection \<open>\<^verbatim>\<open>generate_3d_model\<close>\<close>

text \<open>The inner loop: \<^verbatim>\<open>status.append(job.get("status"))\<close> for each job, in order.\<close>

fun job_statuses :: "json list \<Rightarrow> pyexc + json list" where
  "job_statuses [] = Inr []"
| "job_statuses (job # jobs) =
     (case py_get job ''status'' JNull of
        Inl x \<Rightarrow> Inl x
      | Inr s \<Rightarrow>
          (case job_statuses jobs of
             Inl x \<Rightarrow> Inl x
           | Inr status \<Rightarrow> Inr (s # status)))"

text \<open>
  From the status response to the job list and the list \<^verbatim>\<open>status\<close>: the check of the
  error field, \<^verbatim>\<open>status_result.get("jobs", [])\<close>, \<^verbatim>\<open>if not jobs\<close>, and the inner loop.
\<close>

definition read_jobs :: "json \<Rightarrow> pyexc + (json list \<times> json list)" where
  "read_jobs status_result =
     (case py_in ''error'' status_result of
        Inl x \<Rightarrow> Inl x
      | Inr has_error \<Rightarrow>
          if has_error then
            (case py_get status_result ''error'' JNull of
               Inl x \<Rightarrow> Inl x
             | Inr v \<Rightarrow> Inl (Exception (Fmt ''Status check failed: '' v)))
          else
            (case py_get status_result ''jobs'' (JList []) of
               Inl x \<Rightarrow> Inl x
             | Inr jobs \<Rightarrow>
                 if \<not> truthy jobs then Inl (Exception (Text ''No jobs found in status response''))
                 else
                   (case py_iter jobs of
                      Inl x \<Rightarrow> Inl x
                    | Inr js \<Rightarrow>
                        (case job_statuses js of
                           Inl x \<Rightarrow> Inl x
                         | Inr status \<Rightarrow> Inr (js, status)))))"

text \<open>
  The \<^verbatim>\<open>if\<close>/\<^verbatim>\<open>elif\<close> chain over \<^verbatim>\<open>status\<close>, by the branch taken: all \<^verbatim>\<open>"Done"\<close>, any
  \<^verbatim>\<open>"Failed"\<close>, any \<^verbatim>\<open>"Waiting"\<close>, any \<^verbatim>\<open>"Generating"\<close>, and no branch at all.
\<close>

datatype aggregate = Agg_Done | Agg_Failed | Agg_Waiting | Agg_Generating | Agg_Unknown

definition aggregate_status :: "json list \<Rightarrow> aggregate" where
  "aggregate_status status =
     (if list_all (\<lambda>s. s = JStr ''Done'') status then Agg_Done
      else if list_ex (\<lambda>s. s = JStr ''Failed'') status then Agg_Failed
      else if list_ex (\<lambda>s. s = JStr ''Waiting'') status then Agg_Waiting
      else if list_ex (\<lambda>s. s = JStr ''Generating'') status then Agg_Generating
      else Agg_Unknown)"

text \<open>
  One pass through the body of the polling loop. In the \<^verbatim>\<open>"Failed"\<close> branch \<^verbatim>\<open>job\<close> is the
  loop variable of the inner loop after it has ended, that is the last job of the list
  (non-empty there, and a dict). \<^verbatim>\<open>time.sleep\<close> raises \<^verbatim>\<open>ValueError\<close> on a negative
  argument, and on any other one what the platform makes of it; \<open>Sleep\<close> is recorded when
  the call returns.
\<close>

datatype 'a step = Raise pyexc | Return 'a | Continue

definition poll_attempt ::
  "transport \<Rightarrow> json \<Rightarrow> json \<Rightarrow> int \<Rightarrow> nat \<Rightarrow> event list \<times> (json \<times> json) step" where
  "poll_attempt t task_uuid subscription_key poll_interval attempt =
     (case check_task_status t attempt subscription_key of
        (evs, Inl x) \<Rightarrow> (evs, Raise x)
      | (evs, Inr status_result) \<Rightarrow>
          (case read_jobs status_result of
             Inl x \<Rightarrow> (evs, Raise x)
           | Inr (jobs, status) \<Rightarrow>
               (case aggregate_status status of
                  Agg_Done \<Rightarrow>
                    (case download_results t task_uuid of
                       (evs', Inl x) \<Rightarrow> (evs @ evs', Raise x)
                     | (evs', Inr download_result) \<Rightarrow>
                         (evs @ evs', Return (task_uuid, download_result)))
                | Agg_Failed \<Rightarrow>
                    (case py_get (last jobs) ''error'' (JStr ''Unknown error'') of
                       Inl x \<Rightarrow> (evs, Raise x)
                     | Inr v \<Rightarrow> (evs, Raise (Exception (Fmt ''Task failed: '' v))))
                | _ \<Rightarrow>
                    if poll_interval < 0 then
                      (evs, Raise (ValueError (Text ''sleep length must be non-negative'')))
                    else
                      (case time_sleep t poll_interval of
                         Some e \<Rightarrow> (evs, Raise (sleep_exception e))
                       | None \<Rightarrow> (evs @ [Sleep poll_interval], Continue)))))"

text \<open>
  \<^verbatim>\<open>for attempt in range(max_retries)\<close>, by the number of attempts left; the statement
  after the loop raises the timeout.
\<close>

fun polling ::
  "transport \<Rightarrow> json \<Rightarrow> json \<Rightarrow> int \<Rightarrow> nat \<Rightarrow> nat \<Rightarrow> event list \<times> (pyexc + json \<times> json)" where
  "polling t task_uuid subscription_key poll_interval attempt 0 =
     ([], Inl (Exception (Text ''Task processing timed out'')))"
| "polling t task_uuid subscription_key poll_interval attempt (Suc left) =
     (case poll_attempt t task_uuid subscription_key poll_interval attempt of
        (evs, Raise x) \<Rightarrow> (evs, Inl x)
      | (evs, Return res) \<Rightarrow> (evs, Inr res)
      | (evs, Continue) \<Rightarrow>
          (case polling t task_uuid subscription_key poll_interval (Suc attempt) left of
             (evs', res) \<Rightarrow> (evs @ evs', res)))"

definition generate_3d_model ::
  "client \<Rightarrow> transport \<Rightarrow> request \<Rightarrow> int \<Rightarrow> int \<Rightarrow> event list \<times> (pyexc + json \<times> json)" where
  "generate_3d_model c t r poll_interval max_retries =
     (case submit_generation_task c t r of
        (evs, Inl x) \<Rightarrow> (evs, Inl x)
      | (evs, Inr submit_result) \<Rightarrow>
          (case py_in ''error'' submit_result of
             Inl x \<Rightarrow> (evs, Inl x)
           | Inr has_error \<Rightarrow>
               if has_error then
                 (case py_get submit_result ''error'' JNull of
                    Inl x \<Rightarrow> (evs, Inl x)
                  | Inr v \<Rightarrow> (evs, Inl (Exception (Fmt ''Task submission failed: '' v))))
               else
                 (case py_get submit_result ''uuid'' JNull of
                    Inl x \<Rightarrow> (evs, Inl x)
                  | Inr task_uuid \<Rightarrow>
                      (case py_get submit_result ''jobs'' JNull of
                         Inl x \<Rightarrow> (evs, Inl x)
                       | Inr jobs \<Rightarrow>
                           (case py_get jobs ''subscription_key'' JNull of
                              Inl x \<Rightarrow> (evs, Inl x)
                            | Inr subscription_key \<Rightarrow>
                                (case polling t task_uuid subscription_key poll_interval 0
                                        (nat max_retries) of
                                   (evs', res) \<Rightarrow> (evs @ evs', res)))))))"

section \<open>\<^verbatim>\<open>generate_3d_model.py\<close>: \<^verbatim>\<open>download_model\<close> and the handling of the file list in \<^verbatim>\<open>main\<close>\<close>

text \<open>
  What a download touches: \<^verbatim>\<open>os.makedirs(dir, exist_ok=True)\<close> (\<open>False\<close> when it raises
  \<^verbatim>\<open>OSError\<close>); the streamed GET with \<^verbatim>\<open>raise_for_status()\<close>, giving the bytes or raising
  (\<open>Inl\<close> the text of the exception; the URL is whatever the manifest entry holds);
  opening and writing the output file (\<open>Some\<close> the text of the exception when it raises).
\<close>

record storage =
  makedirs :: "string \<Rightarrow> bool"
  http_get :: "json \<Rightarrow> string + string"
  write_file :: "string \<Rightarrow> string \<Rightarrow> string option"

text \<open>The two lines \<^verbatim>\<open>download_model\<close> can print: the path written, or the file name and the failure.\<close>

datatype outcome = Downloaded string | Failed_Download string string

text \<open>
  The file name, from the lines before the \<^verbatim>\<open>try\<close>: a falsy \<^verbatim>\<open>filename\<close> is replaced by
  \<^verbatim>\<open>os.path.basename(model_url.split("?")[0])\<close>, which needs a string URL, and
  \<^verbatim>\<open>os.path.join(output_dir, filename)\<close> needs a string name.
\<close>

definition local_filename :: "json \<Rightarrow> json \<Rightarrow> pyexc + string" where
  "local_filename model_url filename =
     (case (if \<not> truthy filename then
              (case model_url of
                 JStr u \<Rightarrow> Inr (JStr (basename (takeWhile (\<lambda>c. c \<noteq> CHR ''?'') u)))
               | _ \<Rightarrow> Inl AttributeError)
            else Inr filename) of
        Inl x \<Rightarrow> Inl x
      | Inr (JStr name) \<Rightarrow> Inr name
      | Inr _ \<Rightarrow> Inl TypeError)"

text \<open>
  The \<^verbatim>\<open>try\<close> block: the request and the writing of the file; its handler catches every
  \<^verbatim>\<open>Exception\<close> and prints the failure.
\<close>

definition try_download :: "storage \<Rightarrow> json \<Rightarrow> string \<Rightarrow> string \<Rightarrow> outcome" where
  "try_download st model_url output_path name =
     (case http_get st model_url of
        Inl m \<Rightarrow> Failed_Download name m
      | Inr content \<Rightarrow>
          (case write_file st output_path content of
             Some m \<Rightarrow> Failed_Download name m
           | None \<Rightarrow> Downloaded output_path))"

text \<open>\<^verbatim>\<open>os.makedirs\<close> and the file name come before the \<^verbatim>\<open>try\<close>, outside its handler.\<close>

definition download_model :: "storage \<Rightarrow> json \<Rightarrow> string \<Rightarrow> json \<Rightarrow> pyexc + outcome" where
  "download_model st model_url output_dir filename =
     (if \<not> makedirs st output_dir then Inl OSError
      else
        (case local_filename model_url filename of
           Inl x \<Rightarrow> Inl x
         | Inr name \<Rightarrow> Inr (try_download st model_url (path_join output_dir name) name)))"

text \<open>
  The download loop of \<^verbatim>\<open>main\<close>:
  \<^verbatim>\<open>for file_info in file_list: download_model(file_info.get('url'), task_output_dir, file_info.get('name'))\<close>.
  An exception that leaves \<^verbatim>\<open>download_model\<close> leaves the loop.
\<close>

fun download_all :: "storage \<Rightarrow> string \<Rightarrow> json list \<Rightarrow> outcome list \<times> pyexc option" where
  "download_all st task_output_dir [] = ([], None)"
| "download_all st task_output_dir (file_info # rest) =
     (case py_get file_info ''url'' JNull of
        Inl x \<Rightarrow> ([], Some x)
      | Inr url \<Rightarrow>
          (case py_get file_info ''name'' JNull of
             Inl x \<Rightarrow> ([], Some x)
           | Inr name \<Rightarrow>
               (case download_model st url task_output_dir name of
                  Inl x \<Rightarrow> ([], Some x)
                | Inr oc \<Rightarrow>
                    (case download_all st task_output_dir rest of
                       (ocs, res) \<Rightarrow> (oc # ocs, res)))))"

text \<open>
  The listing loop of \<^verbatim>\<open>main\<close>, which runs before any download:
  \<^verbatim>\<open>for i, file_info in enumerate(file_list, 1): print(f"{i}. {file_info.get('name', 'Unknown')}")\<close>.
\<close>

fun list_files :: "json list \<Rightarrow> pyexc option" where
  "list_files [] = None"
| "list_files (file_info # rest) =
     (case py_get file_info ''name'' (JStr ''Unknown'') of
        Inl x \<Rightarrow> Some x
      | Inr name \<Rightarrow> list_files rest)"

text \<open>
  What \<^verbatim>\<open>main\<close> does with the file list of a result without error field: nothing when the
  list is empty; else the listing loop, and, when \<^verbatim>\<open>--output\<close> is given and not empty, the
  download loop into \<^verbatim>\<open>os.path.join(args.output, task_uuid)\<close>, which needs a string
  task identifier.
\<close>

definition main_files ::
  "storage \<Rightarrow> string option \<Rightarrow> json \<Rightarrow> json list \<Rightarrow> outcome list \<times> pyexc option" where
  "main_files st output task_uuid file_list =
     (if file_list = [] then ([], None)
      else
        (case list_files file_list of
           Some x \<Rightarrow> ([], Some x)
         | None \<Rightarrow>
             (case output of
                None \<Rightarrow> ([], None)
              | Some out \<Rightarrow>
                  if out = [] then ([], None)
                  else
                    (case task_uuid of
                       JStr u \<Rightarrow> download_all st (path_join out u) file_list
                     | _ \<Rightarrow> ([], Some TypeError)))))"

lemma valid_extensions_eq:
  "set valid_extensions = {''.jpg'', ''.jpeg'', ''.png'', ''.webp''}"
  by (simp add: valid_extensions_def SUPPORTED_FORMATS_def)

section \<open>Image validation\<close>

lemma ext_examples:
  "lower (splitext_ext ''photo.jpeg'') = ''.jpeg''"
  "lower (splitext_ext ''small.JPG'') = ''.jpg''"
  "lower (splitext_ext ''huge.png'') = ''.png''"
  "lower (splitext_ext ''scan.bmp'') = ''.bmp''"
  by (simp_all add: lower_def lower_char_def splitext_ext_def basename_def)

text \<open>
  Claim C9. \<^const>\<open>validate_image\<close> accepts a path exactly when the file exists, its size is
  at most 16 MiB, its extension (lower-cased) is one of .jpg, .jpeg, .png, .webp, and the
  image opens with a width and a height both between 512 and 4096 inclusive. Past the
  existence and size checks, another extension gives the format error, a width or height
  below 512 the too-low resolution error, and one above 4096 the too-high resolution error.
\<close>

theorem validate_image_accepts_iff:
  "((validate_image fs p = Inr True) =
     (path_exists fs p \<and> path_getsize fs p \<le> 16 * 1024 * 1024 \<and>
      lower (splitext_ext p) \<in> {''.jpg'', ''.jpeg'', ''.png'', ''.webp''} \<and>
      (\<exists>w h. image_size fs p = Inr (w, h) \<and>
         512 \<le> w \<and> w \<le> 4096 \<and> 512 \<le> h \<and> h \<le> 4096)))
   \<and> validate_image fs p \<noteq> Inr False
   \<and> (path_exists fs p \<and> path_getsize fs p \<le> 16 * 1024 * 1024 \<and>
      lower (splitext_ext p) \<notin> {''.jpg'', ''.jpeg'', ''.png'', ''.webp''} \<longrightarrow>
      validate_image fs p = Inl (Exception (Text
        ''Unsupported image format. Please use one of: .jpg, .jpeg, .png, .webp'')))
   \<and> (path_exists fs p \<and> path_getsize fs p \<le> 16 * 1024 * 1024 \<and>
      lower (splitext_ext p) \<in> {''.jpg'', ''.jpeg'', ''.png'', ''.webp''} \<and>
      image_size fs p = Inr (w, h) \<and> (w < 512 \<or> h < 512) \<longrightarrow>
      validate_image fs p = Inl (Exception (Fmt ''Failed to validate image: '' (JStr too_low))))
   \<and> (path_exists fs p \<and> path_getsize fs p \<le> 16 * 1024 * 1024 \<and>
      lower (splitext_ext p) \<in> {''.jpg'', ''.jpeg'', ''.png'', ''.webp''} \<and>
      image_size fs p = Inr (w, h) \<and> 512 \<le> w \<and> 512 \<le> h \<and> (4096 < w \<or> 4096 < h) \<longrightarrow>
      validate_image fs p = Inl (Exception (Fmt ''Failed to validate image: '' (JStr too_high))))"
  unfolding validate_image_def valid_extensions_eq MAX_FILE_SIZE_def MIN_RESOLUTION_def
    MAX_RESOLUTION_def
  by (auto split: sum.splits)

text \<open>
  The four examples of the claim: a 600 x 600 JPEG of 1 MiB passes, a 400 x 400 image and
  a 5000 x 5000 PNG fail on the resolution, a .bmp file fails on the format.
\<close>

theorem validate_image_accepts_iff_witness:
  "validate_image \<lparr>path_exists = \<lambda>p. True, path_getsize = \<lambda>p. 1048576,
      image_size = \<lambda>p. Inr (600, 600)\<rparr> ''photo.jpeg'' = Inr True
   \<and> validate_image \<lparr>path_exists = \<lambda>p. True, path_getsize = \<lambda>p. 1048576,
      image_size = \<lambda>p. Inr (400, 400)\<rparr> ''small.JPG''
       = Inl (Exception (Fmt ''Failed to validate image: '' (JStr too_low)))
   \<and> validate_image \<lparr>path_exists = \<lambda>p. True, path_getsize = \<lambda>p. 1048576,
      image_size = \<lambda>p. Inr (5000, 5000)\<rparr> ''huge.png''
       = Inl (Exception (Fmt ''Failed to validate image: '' (JStr too_high)))
   \<and> validate_image \<lparr>path_exists = \<lambda>p. True, path_getsize = \<lambda>p. 1048576,
      image_size = \<lambda>p. Inr (600, 600)\<rparr> ''scan.bmp''
       = Inl (Exception (Text
           ''Unsupported image format. Please use one of: .jpg, .jpeg, .png, .webp''))"
  using
    validate_image_accepts_iff [of "\<lparr>path_exists = \<lambda>p. True, path_getsize = \<lambda>p. 1048576,
      image_size = \<lambda>p. Inr (600, 600)\<rparr>" "''photo.jpeg''"]
    validate_image_accepts_iff [of "\<lparr>path_exists = \<lambda>p. True, path_getsize = \<lambda>p. 1048576,
      image_size = \<lambda>p. Inr (400, 400)\<rparr>" "''small.JPG''" 400 400]
    validate_image_accepts_iff [of "\<lparr>path_exists = \<lambda>p. True, path_getsize = \<lambda>p. 1048576,
      image_size = \<lambda>p. Inr (5000, 5000)\<rparr>" "''huge.png''" 5000 5000]
    validate_image_accepts_iff [of "\<lparr>path_exists = \<lambda>p. True, path_getsize = \<lambda>p. 1048576,
      image_size = \<lambda>p. Inr (600, 600)\<rparr>" "''scan.bmp''"]
  by (simp add: ext_examples)

section \<open>The run: submission and polling\<close>

lemma submit_reaches_transport:
  assumes "api_key c = Some k" and "k \<noteq> []"
    and "read_images t (case images r of None \<Rightarrow> [] | Some imgs \<Rightarrow> imgs) = Inr files"
  shows "submit_generation_task c t r =
           ([Post_Rodin files (form_data r)],
            (case post_rodin t of
               Inl m \<Rightarrow> Inl (Exception (Fmt ''API request failed: '' (JStr m)))
             | Inr result \<Rightarrow> Inr result))"
  using assms by (simp add: submit_generation_task_def)

lemma generate_after_submit:
  assumes "submit_generation_task c t r = (evs, Inr submit_result)"
    and "py_in ''error'' submit_result = Inr False"
    and "py_get submit_result ''uuid'' JNull = Inr task_uuid"
    and "py_get submit_result ''jobs'' JNull = Inr jobs"
    and "py_get jobs ''subscription_key'' JNull = Inr subscription_key"
  shows "generate_3d_model c t r poll_interval max_retries =
           (evs @ fst (polling t task_uuid subscription_key poll_interval 0 (nat max_retries)),
            snd (polling t task_uuid subscription_key poll_interval 0 (nat max_retries)))"
  using assms by (simp add: generate_3d_model_def split: prod.splits)

subsection \<open>The status list of a poll\<close>

text \<open>
  The list \<^verbatim>\<open>status\<close> holds, job by job, what \<^verbatim>\<open>job.get("status")\<close> returns; it exists exactly
  when the response has no error field and its \<^verbatim>\<open>jobs\<close> entry is a non-empty list of dicts.
\<close>

lemma job_statuses_iff:
  "(job_statuses js = Inr status) =
     list_all2 (\<lambda>j s. py_get j ''status'' JNull = Inr s) js status"
proof (induction js arbitrary: status)
  case Nil
  then show ?case by auto
next
  case (Cons j js)
  have IH: "list_all2 (\<lambda>j s. py_get j ''status'' JNull = Inr s) js st =
              (job_statuses js = Inr st)" for st
    by (simp add: Cons.IH)
  show ?case by (auto simp: list_all2_Cons1 IH split: sum.splits)
qed

lemma read_jobs_iff:
  "(read_jobs status_result = Inr (js, status)) =
     (py_in ''error'' status_result = Inr False \<and>
      py_get status_result ''jobs'' (JList []) = Inr (JList js) \<and> js \<noteq> [] \<and>
      list_all2 (\<lambda>j s. py_get j ''status'' JNull = Inr s) js status)"
proof
  assume rj: "read_jobs status_result = Inr (js, status)"
  then obtain jobs where e: "py_in ''error'' status_result = Inr False"
    and g: "py_get status_result ''jobs'' (JList []) = Inr jobs"
    and t: "truthy jobs" and i: "py_iter jobs = Inr js"
    and st: "job_statuses js = Inr status"
    by (auto simp: read_jobs_def split: sum.splits if_splits)
  from st have tie: "list_all2 (\<lambda>j s. py_get j ''status'' JNull = Inr s) js status"
    by (simp add: job_statuses_iff)
  have "jobs = JList js \<and> js \<noteq> []"
  proof (cases jobs)
    case (JList xs)
    with t i show ?thesis by simp
  next
    case (JObj kvs)
    with t i tie show ?thesis by (cases kvs) (auto simp: list_all2_Cons1)
  next
    case (JStr str)
    with t i tie show ?thesis by (cases str) (auto simp: list_all2_Cons1)
  qed (insert i, simp_all)
  with e g tie
  show "py_in ''error'' status_result = Inr False \<and>
      py_get status_result ''jobs'' (JList []) = Inr (JList js) \<and> js \<noteq> [] \<and>
      list_all2 (\<lambda>j s. py_get j ''status'' JNull = Inr s) js status"
    by simp
next
  assume a: "py_in ''error'' status_result = Inr False \<and>
      py_get status_result ''jobs'' (JList []) = Inr (JList js) \<and> js \<noteq> [] \<and>
      list_all2 (\<lambda>j s. py_get j ''status'' JNull = Inr s) js status"
  moreover from a have "job_statuses js = Inr status"
    by (simp add: job_statuses_iff)
  ultimately show "read_jobs status_result = Inr (js, status)"
    by (simp add: read_jobs_def)
qed

lemma statuses_of_dicts:
  "list_all (\<lambda>j. \<exists>kvs. j = JObj kvs) js \<Longrightarrow>
     \<exists>status. list_all2 (\<lambda>j s. py_get j ''status'' JNull = Inr s) js status"
proof (induction js)
  case Nil
  then show ?case by simp
next
  case (Cons j js)
  then obtain status kvs where "list_all2 (\<lambda>j s. py_get j ''status'' JNull = Inr s) js status"
    and "j = JObj kvs"
    by auto
  then have "list_all2 (\<lambda>j s. py_get j ''status'' JNull = Inr s) (j # js)
               ((case map_of kvs ''status'' of Some v \<Rightarrow> v | None \<Rightarrow> JNull) # status)"
    by simp
  then show ?case by blast
qed

lemma statuses_all:
  "list_all2 (\<lambda>j s. py_get j ''status'' JNull = Inr s) js status \<Longrightarrow>
     list_all (\<lambda>s. s = v) status = list_all (\<lambda>j. py_get j ''status'' JNull = Inr v) js"
  by (induction js status rule: list_all2_induct) auto

lemma statuses_ex:
  "list_all2 (\<lambda>j s. py_get j ''status'' JNull = Inr s) js status \<Longrightarrow>
     list_ex (\<lambda>s. s = v) status = list_ex (\<lambda>j. py_get j ''status'' JNull = Inr v) js"
  by (induction js status rule: list_all2_induct) auto

lemma aggregate_pending:
  assumes "\<not> list_all (\<lambda>s. s = JStr ''Done'') status"
    and "\<not> list_ex (\<lambda>s. s = JStr ''Failed'') status"
  shows "aggregate_status status \<noteq> Agg_Done" and "aggregate_status status \<noteq> Agg_Failed"
  using assms by (simp_all add: aggregate_status_def)

lemma poll_attempt_pending:
  assumes "post_status t attempt = Inr status_result"
    and "read_jobs status_result = Inr (jobs, status)"
    and "\<not> list_all (\<lambda>s. s = JStr ''Done'') status"
    and "\<not> list_ex (\<lambda>s. s = JStr ''Failed'') status"
    and "0 \<le> poll_interval"
    and "time_sleep t poll_interval = None"
  shows "poll_attempt t task_uuid key poll_interval attempt =
           ([Post_Status key, Sleep poll_interval], Continue)"
  using assms aggregate_pending [OF assms(3,4)]
  by (cases "aggregate_status status") (simp_all add: poll_attempt_def check_task_status_def)

text \<open>
  A poll that is pending: the response has no error field, its jobs are a non-empty list
  of dicts, no job has the status \<^verbatim>\<open>"Failed"\<close> and not every job has the status \<^verbatim>\<open>"Done"\<close>.
\<close>

lemma pending_poll:
  assumes "post_status t attempt = Inr status_result"
    and "py_in ''error'' status_result = Inr False"
    and "py_get status_result ''jobs'' (JList []) = Inr (JList jobs)"
    and "jobs \<noteq> []"
    and "list_all (\<lambda>j. \<exists>kvs. j = JObj kvs) jobs"
    and "\<not> list_ex (\<lambda>j. py_get j ''status'' JNull = Inr (JStr ''Failed'')) jobs"
    and "\<not> list_all (\<lambda>j. py_get j ''status'' JNull = Inr (JStr ''Done'')) jobs"
    and "0 \<le> poll_interval"
    and "time_sleep t poll_interval = None"
  shows "\<exists>status. read_jobs status_result = Inr (jobs, status) \<and>
           list_all2 (\<lambda>j s. py_get j ''status'' JNull = Inr s) jobs status \<and>
           \<not> list_ex (\<lambda>s. s = JStr ''Failed'') status \<and>
           \<not> list_all (\<lambda>s. s = JStr ''Done'') status \<and>
           poll_attempt t task_uuid key poll_interval attempt =
             ([Post_Status key, Sleep poll_interval], Continue)"
proof -
  from statuses_of_dicts [OF assms(5)] obtain status where
    tie: "list_all2 (\<lambda>j s. py_get j ''status'' JNull = Inr s) jobs status"
    by blast
  have rj: "read_jobs status_result = Inr (jobs, status)"
    using assms(2,3,4) tie by (simp add: read_jobs_iff)
  have nf: "\<not> list_ex (\<lambda>s. s = JStr ''Failed'') status"
    using assms(6) by (simp add: statuses_ex [OF tie])
  have nd: "\<not> list_all (\<lambda>s. s = JStr ''Done'') status"
    using assms(7) by (simp add: statuses_all [OF tie])
  from poll_attempt_pending [OF assms(1) rj nd nf assms(8,9)] rj tie nf nd
  show ?thesis by blast
qed

lemma job_statuses_length:
  "job_statuses js = Inr status \<Longrightarrow> length status = length js"
  by (induction js arbitrary: status) (auto split: sum.splits)

lemma job_statuses_dicts:
  "job_statuses js = Inr status \<Longrightarrow> j \<in> set js \<Longrightarrow> \<exists>kvs. j = JObj kvs"
proof (induction js arbitrary: status)
  case Nil
  then show ?case by simp
next
  case (Cons a js)
  from Cons.prems(1) obtain s rest where a: "py_get a ''status'' JNull = Inr s"
    and r: "job_statuses js = Inr rest"
    by (auto split: sum.splits)
  from a have "\<exists>kvs. a = JObj kvs" by (cases a) simp_all
  with Cons.IH [OF r] Cons.prems(2) show ?case by auto
qed

lemma read_jobs_Inr:
  assumes "read_jobs status_result = Inr (js, status)"
  shows "js \<noteq> []" and "job_statuses js = Inr status" and "status \<noteq> []"
proof -
  from assms obtain jobs where t: "truthy jobs" and i: "py_iter jobs = Inr js"
    and s: "job_statuses js = Inr status"
    by (auto simp: read_jobs_def split: sum.splits if_splits)
  from t i show "js \<noteq> []" by (cases jobs) auto
  from s show "job_statuses js = Inr status" .
  from \<open>js \<noteq> []\<close> job_statuses_length [OF s] show "status \<noteq> []" by auto
qed

lemma poll_attempt_shape:
  assumes "poll_attempt t task_uuid key poll_interval attempt = (evs, st)"
  shows "(evs = [Post_Status key] \<and> (\<exists>x. st = Raise x))
       \<or> (evs = [Post_Status key, Sleep poll_interval] \<and> st = Continue)
       \<or> (evs = [Post_Status key, Post_Download task_uuid] \<and> st \<noteq> Continue \<and>
            (\<exists>status_result js status. post_status t attempt = Inr status_result \<and>
               read_jobs status_result = Inr (js, status) \<and> status \<noteq> [] \<and>
               list_all (\<lambda>s. s = JStr ''Done'') status))"
proof (cases "post_status t attempt")
  case (Inl m)
  with assms show ?thesis by (auto simp: poll_attempt_def check_task_status_def)
next
  case (Inr status_result)
  show ?thesis
  proof (cases "read_jobs status_result")
    case (Inl x)
    with Inr assms show ?thesis by (auto simp: poll_attempt_def check_task_status_def)
  next
    case rj: (Inr p)
    obtain js status where p: "p = (js, status)" by (cases p)
    note ne = read_jobs_Inr(3) [OF rj [unfolded p]]
    show ?thesis
    proof (cases "aggregate_status status")
      case Agg_Done
      then have "list_all (\<lambda>s. s = JStr ''Done'') status"
        by (simp add: aggregate_status_def split: if_splits)
      with Agg_Done Inr rj p ne assms show ?thesis
        by (auto simp: poll_attempt_def check_task_status_def download_results_def
            split: sum.splits)
    next
      case Agg_Failed
      with Inr rj p assms show ?thesis
        by (auto simp: poll_attempt_def check_task_status_def split: sum.splits)
    next
      case Agg_Waiting
      with Inr rj p assms show ?thesis
        by (auto simp: poll_attempt_def check_task_status_def split: if_splits option.splits)
    next
      case Agg_Generating
      with Inr rj p assms show ?thesis
        by (auto simp: poll_attempt_def check_task_status_def split: if_splits option.splits)
    next
      case Agg_Unknown
      with Inr rj p assms show ?thesis
        by (auto simp: poll_attempt_def check_task_status_def split: if_splits option.splits)
    qed
  qed
qed

lemma statuses_dicts:
  "list_all2 (\<lambda>j s. py_get j ''status'' JNull = Inr s) js status \<Longrightarrow>
     list_all (\<lambda>j. \<exists>kvs. j = JObj kvs) js"
proof (induction js status rule: list_all2_induct)
  case Nil
  then show ?case by simp
next
  case (Cons j s js status)
  from Cons.hyps(1) have "\<exists>kvs. j = JObj kvs" by (cases j) simp_all
  with Cons.IH show ?case by simp
qed

lemma poll_attempt_Continue:
  assumes "poll_attempt t task_uuid key poll_interval attempt = (evs, Continue)"
  shows "\<exists>status_result js.
           post_status t attempt = Inr status_result \<and>
           py_in ''error'' status_result = Inr False \<and>
           py_get status_result ''jobs'' (JList []) = Inr (JList js) \<and> js \<noteq> [] \<and>
           list_all (\<lambda>j. \<exists>kvs. j = JObj kvs) js \<and>
           \<not> list_ex (\<lambda>j. py_get j ''status'' JNull = Inr (JStr ''Failed'')) js \<and>
           \<not> list_all (\<lambda>j. py_get j ''status'' JNull = Inr (JStr ''Done'')) js"
proof -
  from assms obtain status_result where p: "post_status t attempt = Inr status_result"
    by (cases "post_status t attempt") (auto simp: poll_attempt_def check_task_status_def)
  from assms p obtain js status where rj: "read_jobs status_result = Inr (js, status)"
    by (cases "read_jobs status_result") (auto simp: poll_attempt_def check_task_status_def)
  from assms p rj have nd: "aggregate_status status \<noteq> Agg_Done"
    and nf: "aggregate_status status \<noteq> Agg_Failed"
    by (auto simp: poll_attempt_def check_task_status_def download_results_def
        split: sum.splits)
  from rj have e: "py_in ''error'' status_result = Inr False"
    and g: "py_get status_result ''jobs'' (JList []) = Inr (JList js)" and ne: "js \<noteq> []"
    and tie: "list_all2 (\<lambda>j s. py_get j ''status'' JNull = Inr s) js status"
    by (simp_all add: read_jobs_iff)
  from nd have d: "\<not> list_all (\<lambda>s. s = JStr ''Done'') status"
    by (auto simp: aggregate_status_def)
  with nf have f: "\<not> list_ex (\<lambda>s. s = JStr ''Failed'') status"
    by (auto simp: aggregate_status_def)
  from d have "\<not> list_all (\<lambda>j. py_get j ''status'' JNull = Inr (JStr ''Done'')) js"
    by (simp add: statuses_all [OF tie])
  moreover from f have "\<not> list_ex (\<lambda>j. py_get j ''status'' JNull = Inr (JStr ''Failed'')) js"
    by (simp add: statuses_ex [OF tie])
  ultimately show ?thesis using p e g ne statuses_dicts [OF tie] by blast
qed

lemma polling_timed_out:
  assumes "polling t task_uuid key poll_interval attempt left =
           (concat (replicate left [Post_Status key, Sleep poll_interval]),
            Inl (Exception (Text ''Task processing timed out'')))"
    and "attempt \<le> i" and "i < attempt + left"
  shows "\<exists>evs. poll_attempt t task_uuid key poll_interval i = (evs, Continue)"
  using assms
proof (induction left arbitrary: attempt)
  case 0
  then show ?case by simp
next
  case (Suc left)
  obtain evs st where pa: "poll_attempt t task_uuid key poll_interval attempt = (evs, st)"
    by (cases "poll_attempt t task_uuid key poll_interval attempt")
  obtain evs' res where rest: "polling t task_uuid key poll_interval (Suc attempt) left = (evs', res)"
    by (cases "polling t task_uuid key poll_interval (Suc attempt) left")
  from poll_attempt_shape [OF pa] consider
      (raised) x where "evs = [Post_Status key]" "st = Raise x"
    | (slept) "evs = [Post_Status key, Sleep poll_interval]" "st = Continue"
    | (finished) "evs = [Post_Status key, Post_Download task_uuid]" "st \<noteq> Continue"
    by blast
  then show ?case
  proof cases
    case raised
    with pa Suc.prems(1) show ?thesis by simp
  next
    case finished
    with pa Suc.prems(1) show ?thesis by (cases st) simp_all
  next
    case slept
    with pa rest Suc.prems(1)
    have r: "polling t task_uuid key poll_interval (Suc attempt) left =
           (concat (replicate left [Post_Status key, Sleep poll_interval]),
            Inl (Exception (Text ''Task processing timed out'')))"
      by simp
    show ?thesis
    proof (cases "i = attempt")
      case True
      with pa slept show ?thesis by simp
    next
      case False
      with Suc.prems(2,3) have "Suc attempt \<le> i" "i < Suc attempt + left" by simp_all
      from Suc.IH [OF r this] show ?thesis .
    qed
  qed
qed

lemma polling_all_pending:
  assumes "\<And>i. attempt \<le> i \<Longrightarrow> i < attempt + left \<Longrightarrow>
             poll_attempt t task_uuid key poll_interval i = ([Post_Status key, Sleep poll_interval], Continue)"
  shows "polling t task_uuid key poll_interval attempt left =
           (concat (replicate left [Post_Status key, Sleep poll_interval]),
            Inl (Exception (Text ''Task processing timed out'')))"
  using assms
proof (induction left arbitrary: attempt)
  case 0
  then show ?case by simp
next
  case (Suc left)
  have here: "poll_attempt t task_uuid key poll_interval attempt =
                ([Post_Status key, Sleep poll_interval], Continue)"
    using Suc.prems [of attempt] by simp
  have rest: "polling t task_uuid key poll_interval (Suc attempt) left =
                (concat (replicate left [Post_Status key, Sleep poll_interval]),
                 Inl (Exception (Text ''Task processing timed out'')))"
    by (rule Suc.IH) (simp add: Suc.prems)
  show ?case by (simp add: here rest)
qed

subsection \<open>Exhausting the attempts\<close>

text \<open>
  Claim C3. Take a run whose submission succeeds and whose \<open>poll_interval\<close> is one that
  \<^verbatim>\<open>time.sleep\<close> accepts. If the status source answers every one of the \<open>max_retries\<close>
  attempts with a response without error field whose jobs are a non-empty list of dicts, no
  job with the status \<^verbatim>\<open>"Failed"\<close> and not every job with the status \<^verbatim>\<open>"Done"\<close>, then the run
  makes exactly \<open>max_retries\<close> status requests, sleeps \<open>poll_interval\<close> after each of them,
  never asks for the download links, and ends with the exception
  \<^verbatim>\<open>Task processing timed out\<close>; and a run goes that way only against such a status source.
\<close>

theorem poll_timeout_after_max_retries:
  assumes "api_key c = Some k" and "k \<noteq> []"
    and "read_images t (case images r of None \<Rightarrow> [] | Some imgs \<Rightarrow> imgs) = Inr files"
    and "post_rodin t = Inr submit_result"
    and "py_in ''error'' submit_result = Inr False"
    and "py_get submit_result ''uuid'' JNull = Inr task_uuid"
    and "py_get submit_result ''jobs'' JNull = Inr jobs"
    and "py_get jobs ''subscription_key'' JNull = Inr key"
    and "0 \<le> poll_interval" and "time_sleep t poll_interval = None"
  shows "(\<forall>i<nat max_retries. \<exists>status_result js.
           post_status t i = Inr status_result \<and>
           py_in ''error'' status_result = Inr False \<and>
           py_get status_result ''jobs'' (JList []) = Inr (JList js) \<and> js \<noteq> [] \<and>
           list_all (\<lambda>j. \<exists>kvs. j = JObj kvs) js \<and>
           \<not> list_ex (\<lambda>j. py_get j ''status'' JNull = Inr (JStr ''Failed'')) js \<and>
           \<not> list_all (\<lambda>j. py_get j ''status'' JNull = Inr (JStr ''Done'')) js)
         = (generate_3d_model c t r poll_interval max_retries =
             (Post_Rodin files (form_data r)
                # concat (replicate (nat max_retries) [Post_Status key, Sleep poll_interval]),
              Inl (Exception (Text ''Task processing timed out''))))"
proof -
  have sub: "submit_generation_task c t r = ([Post_Rodin files (form_data r)], Inr submit_result)"
    using submit_reaches_transport [OF assms(1,2,3)] assms(4) by simp
  note run = generate_after_submit [OF sub assms(5,6,7,8), of poll_interval max_retries]
  show ?thesis
  proof
    assume pending: "(\<forall>i<nat max_retries. \<exists>status_result js.
           post_status t i = Inr status_result \<and>
           py_in ''error'' status_result = Inr False \<and>
           py_get status_result ''jobs'' (JList []) = Inr (JList js) \<and> js \<noteq> [] \<and>
           list_all (\<lambda>j. \<exists>kvs. j = JObj kvs) js \<and>
           \<not> list_ex (\<lambda>j. py_get j ''status'' JNull = Inr (JStr ''Failed'')) js \<and>
           \<not> list_all (\<lambda>j. py_get j ''status'' JNull = Inr (JStr ''Done'')) js)"
    have each: "poll_attempt t task_uuid key poll_interval i =
                  ([Post_Status key, Sleep poll_interval], Continue)"
      if "i < 0 + nat max_retries" for i
    proof -
      from that pending obtain status_result js where
        "post_status t i = Inr status_result"
        "py_in ''error'' status_result = Inr False"
        "py_get status_result ''jobs'' (JList []) = Inr (JList js)" "js \<noteq> []"
        "list_all (\<lambda>j. \<exists>kvs. j = JObj kvs) js"
        "\<not> list_ex (\<lambda>j. py_get j ''status'' JNull = Inr (JStr ''Failed'')) js"
        "\<not> list_all (\<lambda>j. py_get j ''status'' JNull = Inr (JStr ''Done'')) js"
        by auto
      from pending_poll [OF this assms(9,10)] show ?thesis by blast
    qed
    have "polling t task_uuid key poll_interval 0 (nat max_retries) =
            (concat (replicate (nat max_retries) [Post_Status key, Sleep poll_interval]),
             Inl (Exception (Text ''Task processing timed out'')))"
      by (rule polling_all_pending) (rule each)
    then show "generate_3d_model c t r poll_interval max_retries =
             (Post_Rodin files (form_data r)
                # concat (replicate (nat max_retries) [Post_Status key, Sleep poll_interval]),
              Inl (Exception (Text ''Task processing timed out'')))"
      using run by simp
  next
    assume "generate_3d_model c t r poll_interval max_retries =
             (Post_Rodin files (form_data r)
                # concat (replicate (nat max_retries) [Post_Status key, Sleep poll_interval]),
              Inl (Exception (Text ''Task processing timed out'')))"
    with run have timed: "polling t task_uuid key poll_interval 0 (nat max_retries) =
            (concat (replicate (nat max_retries) [Post_Status key, Sleep poll_interval]),
             Inl (Exception (Text ''Task processing timed out'')))"
      by (simp add: prod_eq_iff)
    show "(\<forall>i<nat max_retries. \<exists>status_result js.
           post_status t i = Inr status_result \<and>
           py_in ''error'' status_result = Inr False \<and>
           py_get status_result ''jobs'' (JList []) = Inr (JList js) \<and> js \<noteq> [] \<and>
           list_all (\<lambda>j. \<exists>kvs. j = JObj kvs) js \<and>
           \<not> list_ex (\<lambda>j. py_get j ''status'' JNull = Inr (JStr ''Failed'')) js \<and>
           \<not> list_all (\<lambda>j. py_get j ''status'' JNull = Inr (JStr ''Done'')) js)"
    proof (intro allI impI)
      fix i assume "i < nat max_retries"
      then have "0 \<le> i" "i < 0 + nat max_retries" by simp_all
      from polling_timed_out [OF timed this] obtain evs where
        "poll_attempt t task_uuid key poll_interval i = (evs, Continue)"
        by blast
      then show "\<exists>status_result js.
           post_status t i = Inr status_result \<and>
           py_in ''error'' status_result = Inr False \<and>
           py_get status_result ''jobs'' (JList []) = Inr (JList js) \<and> js \<noteq> [] \<and>
           list_all (\<lambda>j. \<exists>kvs. j = JObj kvs) js \<and>
           \<not> list_ex (\<lambda>j. py_get j ''status'' JNull = Inr (JStr ''Failed'')) js \<and>
           \<not> list_all (\<lambda>j. py_get j ''status'' JNull = Inr (JStr ''Done'')) js"
        by (rule poll_attempt_Continue)
    qed
  qed
qed

text \<open>Three attempts against a status source that always answers \<^verbatim>\<open>"Generating"\<close>.\<close>

theorem poll_timeout_after_max_retries_witness:
  "generate_3d_model \<lparr>api_key = Some ''secret''\<rparr>
     \<lparr>read_file = \<lambda>p. None,
      post_rodin = Inr (JObj [(''uuid'', JStr ''task-1''),
                              (''jobs'', JObj [(''subscription_key'', JStr ''sub-1'')])]),
      post_status = \<lambda>i. Inr (JObj [(''jobs'', JList [JObj [(''status'', JStr ''Generating'')]])]),
      post_download = Inl ''unreachable'', time_sleep = \<lambda>s. None\<rparr>
     default_request 10 3 =
   ([Post_Rodin [] (form_data default_request),
     Post_Status (JStr ''sub-1''), Sleep 10,
     Post_Status (JStr ''sub-1''), Sleep 10,
     Post_Status (JStr ''sub-1''), Sleep 10],
    Inl (Exception (Text ''Task processing timed out'')))"
  using poll_timeout_after_max_retries
    [where c = "\<lparr>api_key = Some ''secret''\<rparr>" and k = "''secret''" and r = default_request
       and files = "[]" and task_uuid = "JStr ''task-1''" and key = "JStr ''sub-1''"
       and jobs = "JObj [(''subscription_key'', JStr ''sub-1'')]"
       and submit_result = "JObj [(''uuid'', JStr ''task-1''),
                              (''jobs'', JObj [(''subscription_key'', JStr ''sub-1'')])]"
       and poll_interval = 10 and max_retries = 3
       and t = "\<lparr>read_file = \<lambda>p. None,
      post_rodin = Inr (JObj [(''uuid'', JStr ''task-1''),
                              (''jobs'', JObj [(''subscription_key'', JStr ''sub-1'')])]),
      post_status = \<lambda>i. Inr (JObj [(''jobs'', JList [JObj [(''status'', JStr ''Generating'')]])]),
      post_download = Inl ''unreachable'', time_sleep = \<lambda>s. None\<rparr>"]
  by (simp add: default_request_def eval_nat_numeral)

subsection \<open>Pending polls\<close>

text \<open>
  Claim C5. Take a poll whose response has no error field and whose jobs are a non-empty
  list of dicts, none with the status \<^verbatim>\<open>"Failed"\<close> and not all with the status \<^verbatim>\<open>"Done"\<close>.
  The list \<^verbatim>\<open>status\<close> holds the jobs' statuses, and the branch taken is the one for
  \<^verbatim>\<open>"Waiting"\<close> if some job is waiting, else the one for \<^verbatim>\<open>"Generating"\<close> if some job is
  generating, else none. In each of the three cases the attempt raises nothing and returns
  nothing: it sleeps \<open>poll_interval\<close> (one that \<^verbatim>\<open>time.sleep\<close> accepts) and the loop goes on
  with the next attempt.
\<close>

theorem pending_aggregate_continues:
  assumes "post_status t attempt = Inr status_result"
    and "py_in ''error'' status_result = Inr False"
    and "py_get status_result ''jobs'' (JList []) = Inr (JList jobs)"
    and "jobs \<noteq> []"
    and "list_all (\<lambda>j. \<exists>kvs. j = JObj kvs) jobs"
    and "\<not> list_ex (\<lambda>j. py_get j ''status'' JNull = Inr (JStr ''Failed'')) jobs"
    and "\<not> list_all (\<lambda>j. py_get j ''status'' JNull = Inr (JStr ''Done'')) jobs"
    and "0 \<le> poll_interval"
    and "time_sleep t poll_interval = None"
  shows "(\<exists>status. read_jobs status_result = Inr (jobs, status) \<and>
            list_all2 (\<lambda>j s. py_get j ''status'' JNull = Inr s) jobs status \<and>
            aggregate_status status =
              (if list_ex (\<lambda>j. py_get j ''status'' JNull = Inr (JStr ''Waiting'')) jobs
               then Agg_Waiting
               else if list_ex (\<lambda>j. py_get j ''status'' JNull = Inr (JStr ''Generating'')) jobs
               then Agg_Generating
               else Agg_Unknown))
         \<and> poll_attempt t task_uuid key poll_interval attempt =
             ([Post_Status key, Sleep poll_interval], Continue)
         \<and> polling t task_uuid key poll_interval attempt (Suc left) =
             (Post_Status key # Sleep poll_interval
                # fst (polling t task_uuid key poll_interval (Suc attempt) left),
              snd (polling t task_uuid key poll_interval (Suc attempt) left))"
proof -
  from pending_poll [OF assms, of task_uuid key] obtain status where
    rj: "read_jobs status_result = Inr (jobs, status)"
    and tie: "list_all2 (\<lambda>j s. py_get j ''status'' JNull = Inr s) jobs status"
    and nf: "\<not> list_ex (\<lambda>s. s = JStr ''Failed'') status"
    and nd: "\<not> list_all (\<lambda>s. s = JStr ''Done'') status"
    and step: "poll_attempt t task_uuid key poll_interval attempt =
             ([Post_Status key, Sleep poll_interval], Continue)"
    by blast
  have agg: "aggregate_status status =
              (if list_ex (\<lambda>j. py_get j ''status'' JNull = Inr (JStr ''Waiting'')) jobs
               then Agg_Waiting
               else if list_ex (\<lambda>j. py_get j ''status'' JNull = Inr (JStr ''Generating'')) jobs
               then Agg_Generating
               else Agg_Unknown)"
    using nf nd by (simp add: aggregate_status_def statuses_ex [OF tie, symmetric])
  have loop: "polling t task_uuid key poll_interval attempt (Suc left) =
             (Post_Status key # Sleep poll_interval
                # fst (polling t task_uuid key poll_interval (Suc attempt) left),
              snd (polling t task_uuid key poll_interval (Suc attempt) left))"
    by (simp add: step split: prod.splits)
  from rj tie agg have "\<exists>status. read_jobs status_result = Inr (jobs, status) \<and>
            list_all2 (\<lambda>j s. py_get j ''status'' JNull = Inr s) jobs status \<and>
            aggregate_status status =
              (if list_ex (\<lambda>j. py_get j ''status'' JNull = Inr (JStr ''Waiting'')) jobs
               then Agg_Waiting
               else if list_ex (\<lambda>j. py_get j ''status'' JNull = Inr (JStr ''Generating'')) jobs
               then Agg_Generating
               else Agg_Unknown)"
    by (intro exI conjI)
  with step loop show ?thesis by (intro conjI)
qed

text \<open>
  A waiting job beside a generating one is the waiting branch, a generating job beside a
  finished one the generating branch, an unrecognised status beside a finished one no
  branch; the loop sleeps and, on its last attempt, times out.
\<close>

theorem pending_aggregate_continues_witness:
  "read_jobs (JObj [(''jobs'', JList [JObj [(''status'', JStr ''Waiting'')],
                                                      JObj [(''status'', JStr ''Generating'')]])]) = Inr ([JObj [(''status'', JStr ''Waiting'')], JObj [(''status'', JStr ''Generating'')]], [JStr ''Waiting'', JStr ''Generating''])
   \<and> aggregate_status [JStr ''Waiting'', JStr ''Generating''] = Agg_Waiting
   \<and> polling \<lparr>read_file = \<lambda>p. None, post_rodin = Inl [],
        post_status = \<lambda>i. Inr (JObj [(''jobs'', JList [JObj [(''status'', JStr ''Waiting'')],
                                                      JObj [(''status'', JStr ''Generating'')]])]),
        post_download = Inl [], time_sleep = \<lambda>s. None\<rparr> (JStr ''task-1'') (JStr ''sub-1'') 10 0 (Suc 0) =
      ([Post_Status (JStr ''sub-1''), Sleep 10], Inl (Exception (Text ''Task processing timed out'')))
   \<and> read_jobs (JObj [(''jobs'', JList [JObj [(''status'', JStr ''Generating'')],
                                                      JObj [(''status'', JStr ''Done'')]])]) = Inr ([JObj [(''status'', JStr ''Generating'')], JObj [(''status'', JStr ''Done'')]], [JStr ''Generating'', JStr ''Done''])
   \<and> aggregate_status [JStr ''Generating'', JStr ''Done''] = Agg_Generating
   \<and> poll_attempt \<lparr>read_file = \<lambda>p. None, post_rodin = Inl [],
        post_status = \<lambda>i. Inr (JObj [(''jobs'', JList [JObj [(''status'', JStr ''Generating'')],
                                                      JObj [(''status'', JStr ''Done'')]])]),
        post_download = Inl [], time_sleep = \<lambda>s. None\<rparr> (JStr ''task-1'') (JStr ''sub-1'') 10 0 =
      ([Post_Status (JStr ''sub-1''), Sleep 10], Continue)
   \<and> read_jobs (JObj [(''jobs'', JList [JObj [(''status'', JStr ''Paused'')],
                                                      JObj [(''status'', JStr ''Done'')]])]) = Inr ([JObj [(''status'', JStr ''Paused'')], JObj [(''status'', JStr ''Done'')]], [JStr ''Paused'', JStr ''Done''])
   \<and> aggregate_status [JStr ''Paused'', JStr ''Done''] = Agg_Unknown
   \<and> poll_attempt \<lparr>read_file = \<lambda>p. None, post_rodin = Inl [],
        post_status = \<lambda>i. Inr (JObj [(''jobs'', JList [JObj [(''status'', JStr ''Paused'')],
                                                      JObj [(''status'', JStr ''Done'')]])]),
        post_download = Inl [], time_sleep = \<lambda>s. None\<rparr> (JStr ''task-1'') (JStr ''sub-1'') 10 0 =
      ([Post_Status (JStr ''sub-1''), Sleep 10], Continue)"
  using
    pending_aggregate_continues
      [where t = "\<lparr>read_file = \<lambda>p. None, post_rodin = Inl [],
        post_status = \<lambda>i. Inr (JObj [(''jobs'', JList [JObj [(''status'', JStr ''Waiting'')],
                                                      JObj [(''status'', JStr ''Generating'')]])]),
        post_download = Inl [], time_sleep = \<lambda>s. None\<rparr>"
        and attempt = 0 and left = 0 and poll_interval = 10
        and status_result = "JObj [(''jobs'', JList [JObj [(''status'', JStr ''Waiting'')],
                                                      JObj [(''status'', JStr ''Generating'')]])]"
        and jobs = "[JObj [(''status'', JStr ''Waiting'')], JObj [(''status'', JStr ''Generating'')]]"
        and task_uuid = "JStr ''task-1''" and key = "JStr ''sub-1''"]
    pending_aggregate_continues
      [where t = "\<lparr>read_file = \<lambda>p. None, post_rodin = Inl [],
        post_status = \<lambda>i. Inr (JObj [(''jobs'', JList [JObj [(''status'', JStr ''Generating'')],
                                                      JObj [(''status'', JStr ''Done'')]])]),
        post_download = Inl [], time_sleep = \<lambda>s. None\<rparr>"
        and attempt = 0 and left = 0 and poll_interval = 10
        and status_result = "JObj [(''jobs'', JList [JObj [(''status'', JStr ''Generating'')],
                                                      JObj [(''status'', JStr ''Done'')]])]"
        and jobs = "[JObj [(''status'', JStr ''Generating'')], JObj [(''status'', JStr ''Done'')]]"
        and task_uuid = "JStr ''task-1''" and key = "JStr ''sub-1''"]
    pending_aggregate_continues
      [where t = "\<lparr>read_file = \<lambda>p. None, post_rodin = Inl [],
        post_status = \<lambda>i. Inr (JObj [(''jobs'', JList [JObj [(''status'', JStr ''Paused'')],
                                                      JObj [(''status'', JStr ''Done'')]])]),
        post_download = Inl [], time_sleep = \<lambda>s. None\<rparr>"
        and attempt = 0 and left = 0 and poll_interval = 10
        and status_result = "JObj [(''jobs'', JList [JObj [(''status'', JStr ''Paused'')],
                                                      JObj [(''status'', JStr ''Done'')]])]"
        and jobs = "[JObj [(''status'', JStr ''Paused'')], JObj [(''status'', JStr ''Done'')]]"
        and task_uuid = "JStr ''task-1''" and key = "JStr ''sub-1''"]
  by (auto simp: list_all2_Cons1)

subsection \<open>A status response without jobs\<close>

text \<open>
  Claim C6. A status response without an error field whose \<^verbatim>\<open>jobs\<close> entry is missing or
  empty (any falsy value) makes the attempt raise \<^verbatim>\<open>No jobs found in status response\<close>:
  no sleep follows and the loop makes no further attempt, however many are left.
\<close>

theorem no_jobs_is_fatal:
  assumes "post_status t attempt = Inr status_result"
    and "py_in ''error'' status_result = Inr False"
    and "py_get status_result ''jobs'' (JList []) = Inr jobs"
    and "\<not> truthy jobs"
  shows "poll_attempt t task_uuid key poll_interval attempt =
           ([Post_Status key], Raise (Exception (Text ''No jobs found in status response'')))
         \<and> polling t task_uuid key poll_interval attempt (Suc left) =
           ([Post_Status key], Inl (Exception (Text ''No jobs found in status response'')))"
proof -
  have "read_jobs status_result = Inl (Exception (Text ''No jobs found in status response''))"
    using assms(2,3,4) by (simp add: read_jobs_def)
  then have step: "poll_attempt t task_uuid key poll_interval attempt =
           ([Post_Status key], Raise (Exception (Text ''No jobs found in status response'')))"
    using assms(1) by (simp add: poll_attempt_def check_task_status_def)
  then show ?thesis by simp
qed

text \<open>An empty job list and a response with no job list at all, with 59 attempts left.\<close>

theorem no_jobs_is_fatal_witness:
  "polling \<lparr>read_file = \<lambda>p. None, post_rodin = Inl [],
        post_status = \<lambda>i. Inr (JObj [(''jobs'', JList [])]),
        post_download = Inl [],
       time_sleep = \<lambda>s. None\<rparr> (JStr ''task-1'') (JStr ''sub-1'') 10 0 (Suc 59) =
      ([Post_Status (JStr ''sub-1'')], Inl (Exception (Text ''No jobs found in status response'')))
   \<and> polling \<lparr>read_file = \<lambda>p. None, post_rodin = Inl [],
        post_status = \<lambda>i. Inr (JObj [(''uuid'', JStr ''task-1'')]),
        post_download = Inl [],
       time_sleep = \<lambda>s. None\<rparr> (JStr ''task-1'') (JStr ''sub-1'') 10 0 (Suc 59) =
      ([Post_Status (JStr ''sub-1'')], Inl (Exception (Text ''No jobs found in status response'')))"
  using
    no_jobs_is_fatal
      [where t = "\<lparr>read_file = \<lambda>p. None, post_rodin = Inl [],
        post_status = \<lambda>i. Inr (JObj [(''jobs'', JList [])]),
        post_download = Inl [], time_sleep = \<lambda>s. None\<rparr>"
        and attempt = 0 and left = 59 and poll_interval = 10
        and status_result = "JObj [(''jobs'', JList [])]" and jobs = "JList []"
        and task_uuid = "JStr ''task-1''" and key = "JStr ''sub-1''"]
    no_jobs_is_fatal
      [where t = "\<lparr>read_file = \<lambda>p. None, post_rodin = Inl [],
        post_status = \<lambda>i. Inr (JObj [(''uuid'', JStr ''task-1'')]),
        post_download = Inl [], time_sleep = \<lambda>s. None\<rparr>"
        and attempt = 0 and left = 59 and poll_interval = 10
        and status_result = "JObj [(''uuid'', JStr ''task-1'')]" and jobs = "JList []"
        and task_uuid = "JStr ''task-1''" and key = "JStr ''sub-1''"]
  by simp

subsection \<open>Finished jobs and the download request\<close>

lemma polling_downloads:
  "length (filter is_download (fst (polling t task_uuid key poll_interval attempt left))) \<le> 1
   \<and> (list_ex is_download (fst (polling t task_uuid key poll_interval attempt left)) \<longrightarrow>
        (\<exists>i status_result js status. attempt \<le> i \<and> i < attempt + left \<and>
           post_status t i = Inr status_result \<and>
           read_jobs status_result = Inr (js, status) \<and> status \<noteq> [] \<and>
           list_all (\<lambda>s. s = JStr ''Done'') status))"
proof (induction left arbitrary: attempt)
  case 0
  then show ?case by simp
next
  case (Suc left)
  obtain evs st where pa: "poll_attempt t task_uuid key poll_interval attempt = (evs, st)"
    by (cases "poll_attempt t task_uuid key poll_interval attempt")
  obtain evs' res where rest: "polling t task_uuid key poll_interval (Suc attempt) left = (evs', res)"
    by (cases "polling t task_uuid key poll_interval (Suc attempt) left")
  from poll_attempt_shape [OF pa] consider
      (raise) x where "evs = [Post_Status key]" "st = Raise x"
    | (sleep) "evs = [Post_Status key, Sleep poll_interval]" "st = Continue"
    | (finished) "evs = [Post_Status key, Post_Download task_uuid]" "st \<noteq> Continue"
        "\<exists>status_result js status. post_status t attempt = Inr status_result \<and>
               read_jobs status_result = Inr (js, status) \<and> status \<noteq> [] \<and>
               list_all (\<lambda>s. s = JStr ''Done'') status"
    by blast
  then show ?case
  proof cases
    case raise
    with pa show ?thesis by simp
  next
    case sleep
    from Suc.IH [of "Suc attempt"] rest
    have le: "length (filter is_download evs') \<le> 1"
      and ex: "list_ex is_download evs' \<longrightarrow>
        (\<exists>i status_result js status. Suc attempt \<le> i \<and> i < Suc attempt + left \<and>
           post_status t i = Inr status_result \<and>
           read_jobs status_result = Inr (js, status) \<and> status \<noteq> [] \<and>
           list_all (\<lambda>s. s = JStr ''Done'') status)"
      by simp_all
    have trace: "fst (polling t task_uuid key poll_interval attempt (Suc left)) = evs @ evs'"
      using pa rest sleep by simp
    have "list_ex is_download (evs @ evs') = list_ex is_download evs'"
      using sleep by simp
    moreover have "filter is_download (evs @ evs') = filter is_download evs'"
      using sleep by simp
    ultimately show ?thesis
      unfolding trace using le ex
      by (metis Suc_leD add_Suc_shift)
  next
    case finished
    have trace: "fst (polling t task_uuid key poll_interval attempt (Suc left)) = evs"
      using pa finished by (cases st) simp_all
    show ?thesis unfolding trace using finished by auto
  qed
qed


lemma poll_attempt_Return:
  assumes "poll_attempt t task_uuid key poll_interval attempt = (evs, Return res)"
  shows "evs = [Post_Status key, Post_Download task_uuid]
         \<and> (\<exists>manifest. res = (task_uuid, manifest) \<and> post_download t = Inr manifest)"
  using assms
  by (auto simp: poll_attempt_def check_task_status_def download_results_def
      split: sum.splits aggregate.splits if_splits option.splits)

lemma polling_Inr:
  "polling t task_uuid key poll_interval attempt left = (evs, Inr (tid, manifest)) \<Longrightarrow>
     tid = task_uuid \<and> post_download t = Inr manifest \<and> length (filter is_download evs) = 1"
proof (induction left arbitrary: attempt evs)
  case 0
  then show ?case by simp
next
  case (Suc left)
  obtain evs0 st where pa: "poll_attempt t task_uuid key poll_interval attempt = (evs0, st)"
    by (cases "poll_attempt t task_uuid key poll_interval attempt")
  obtain evs' res where rest: "polling t task_uuid key poll_interval (Suc attempt) left = (evs', res)"
    by (cases "polling t task_uuid key poll_interval (Suc attempt) left")
  show ?case
  proof (cases st)
    case (Raise x)
    with pa Suc.prems show ?thesis by simp
  next
    case (Return r)
    with pa Suc.prems have "evs = evs0" "r = (tid, manifest)" by simp_all
    with poll_attempt_Return [OF pa [unfolded Return]] show ?thesis by simp
  next
    case Continue
    with pa rest Suc.prems have e: "evs = evs0 @ evs'" and r: "res = Inr (tid, manifest)"
      by simp_all
    from poll_attempt_shape [OF pa] Continue have "evs0 = [Post_Status key, Sleep poll_interval]"
      by auto
    with Suc.IH [OF rest [unfolded r]] e show ?thesis by simp
  qed
qed

lemma submit_events:
  "fst (submit_generation_task c t r) = []
   \<or> (\<exists>files. fst (submit_generation_task c t r) = [Post_Rodin files (form_data r)])"
  by (simp add: submit_generation_task_def split: sum.splits)

lemma generate_shape:
  "(\<exists>x. generate_3d_model c t r poll_interval max_retries =
          (fst (submit_generation_task c t r), Inl x))
   \<or> (\<exists>task_uuid key.
        generate_3d_model c t r poll_interval max_retries =
          (fst (submit_generation_task c t r)
             @ fst (polling t task_uuid key poll_interval 0 (nat max_retries)),
           snd (polling t task_uuid key poll_interval 0 (nat max_retries))))"
  by (auto simp: generate_3d_model_def case_prod_unfold split: sum.splits)

lemma statuses_constant:
  "list_all (\<lambda>j. py_get j ''status'' JNull = Inr v) js \<Longrightarrow>
     list_all2 (\<lambda>j s. py_get j ''status'' JNull = Inr s) js (map (\<lambda>j. v) js)"
  by (induction js) auto

lemma done_poll_raw:
  assumes "read_jobs status_result = Inr (js, status)"
    and "list_all (\<lambda>s. s = JStr ''Done'') status"
  shows "py_in ''error'' status_result = Inr False \<and>
         py_get status_result ''jobs'' (JList []) = Inr (JList js) \<and> js \<noteq> [] \<and>
         list_all (\<lambda>j. py_get j ''status'' JNull = Inr (JStr ''Done'')) js"
proof -
  from assms(1) have e: "py_in ''error'' status_result = Inr False"
    and g: "py_get status_result ''jobs'' (JList []) = Inr (JList js)" and ne: "js \<noteq> []"
    and tie: "list_all2 (\<lambda>j s. py_get j ''status'' JNull = Inr s) js status"
    by (simp_all add: read_jobs_iff)
  from assms(2) have "list_all (\<lambda>j. py_get j ''status'' JNull = Inr (JStr ''Done'')) js"
    by (simp add: statuses_all [OF tie])
  with e g ne show ?thesis by simp
qed

text \<open>
  Claim C4. Take a poll whose response has no error field and whose jobs are a non-empty
  list in which every job has the status \<^verbatim>\<open>"Done"\<close>. The list \<^verbatim>\<open>status\<close> holds these statuses,
  the branch taken is the first one, the loop ends in that attempt with one download
  request for the task identifier, and the run returns the task identifier with what that
  request returned (the request's own failure is the only other outcome). In every run the
  download request is made at most once, only after an attempt whose response had no error
  field and a non-empty job list with every status \<^verbatim>\<open>"Done"\<close>, and every returned pair holds
  the answer of that one request.
\<close>

theorem all_done_fetches_manifest_once:
  "(post_status t attempt = Inr status_result \<and>
    py_in ''error'' status_result = Inr False \<and>
    py_get status_result ''jobs'' (JList []) = Inr (JList jobs) \<and> jobs \<noteq> [] \<and>
    list_all (\<lambda>j. py_get j ''status'' JNull = Inr (JStr ''Done'')) jobs \<longrightarrow>
      (\<exists>status. read_jobs status_result = Inr (jobs, status) \<and>
         list_all2 (\<lambda>j s. py_get j ''status'' JNull = Inr s) jobs status \<and>
         aggregate_status status = Agg_Done) \<and>
      polling t task_uuid key poll_interval attempt (Suc left) =
        ([Post_Status key, Post_Download task_uuid],
         (case post_download t of
            Inl m \<Rightarrow> Inl (Exception (Fmt ''Download request failed: '' (JStr m)))
          | Inr manifest \<Rightarrow> Inr (task_uuid, manifest))))
   \<and> length (filter is_download (fst (generate_3d_model c t r poll_interval max_retries))) \<le> 1
   \<and> (list_ex is_download (fst (generate_3d_model c t r poll_interval max_retries)) \<longrightarrow>
        (\<exists>i<nat max_retries. \<exists>sr js. post_status t i = Inr sr \<and>
           py_in ''error'' sr = Inr False \<and>
           py_get sr ''jobs'' (JList []) = Inr (JList js) \<and> js \<noteq> [] \<and>
           list_all (\<lambda>j. py_get j ''status'' JNull = Inr (JStr ''Done'')) js))
   \<and> (snd (generate_3d_model c t r poll_interval max_retries) = Inr (tid, manifest) \<longrightarrow>
        length (filter is_download (fst (generate_3d_model c t r poll_interval max_retries))) = 1
        \<and> post_download t = Inr manifest)"
proof -
  have forward: "(\<exists>status. read_jobs status_result = Inr (jobs, status) \<and>
         list_all2 (\<lambda>j s. py_get j ''status'' JNull = Inr s) jobs status \<and>
         aggregate_status status = Agg_Done) \<and>
      polling t task_uuid key poll_interval attempt (Suc left) =
        ([Post_Status key, Post_Download task_uuid],
         (case post_download t of
            Inl m \<Rightarrow> Inl (Exception (Fmt ''Download request failed: '' (JStr m)))
          | Inr manifest \<Rightarrow> Inr (task_uuid, manifest)))"
    if "post_status t attempt = Inr status_result"
      "py_in ''error'' status_result = Inr False"
      "py_get status_result ''jobs'' (JList []) = Inr (JList jobs)" "jobs \<noteq> []"
      "list_all (\<lambda>j. py_get j ''status'' JNull = Inr (JStr ''Done'')) jobs"
  proof -
    define status where "status = map (\<lambda>j. JStr ''Done'') jobs"
    have tie: "list_all2 (\<lambda>j s. py_get j ''status'' JNull = Inr s) jobs status"
      unfolding status_def using that(5) by (rule statuses_constant)
    have rj: "read_jobs status_result = Inr (jobs, status)"
      using that(2,3,4) tie by (simp add: read_jobs_iff)
    have "list_all (\<lambda>s. s = JStr ''Done'') status"
      using that(5) by (simp add: statuses_all [OF tie])
    then have agg: "aggregate_status status = Agg_Done"
      by (simp add: aggregate_status_def)
    have "polling t task_uuid key poll_interval attempt (Suc left) =
        ([Post_Status key, Post_Download task_uuid],
         (case post_download t of
            Inl m \<Rightarrow> Inl (Exception (Fmt ''Download request failed: '' (JStr m)))
          | Inr manifest \<Rightarrow> Inr (task_uuid, manifest)))"
      using that(1) rj agg
      by (simp add: poll_attempt_def check_task_status_def download_results_def
          split: sum.splits)
    with rj tie agg show ?thesis by blast
  qed
  have no_dl: "filter is_download (fst (submit_generation_task c t r)) = []"
    using submit_events [of c t r] by auto
  have count: "length (filter is_download (fst (generate_3d_model c t r poll_interval max_retries))) \<le> 1"
    using generate_shape [of c t r poll_interval max_retries] no_dl
      polling_downloads [of t _ _ poll_interval 0 "nat max_retries"]
    by auto
  have only: "\<exists>i<nat max_retries. \<exists>sr js. post_status t i = Inr sr \<and>
           py_in ''error'' sr = Inr False \<and>
           py_get sr ''jobs'' (JList []) = Inr (JList js) \<and> js \<noteq> [] \<and>
           list_all (\<lambda>j. py_get j ''status'' JNull = Inr (JStr ''Done'')) js"
    if "list_ex is_download (fst (generate_3d_model c t r poll_interval max_retries))"
  proof -
    from generate_shape [of c t r poll_interval max_retries] that no_dl
    obtain task_uuid' key' where
      "list_ex is_download (fst (polling t task_uuid' key' poll_interval 0 (nat max_retries)))"
      by (fastforce simp: list_ex_iff filter_empty_conv)
    with polling_downloads [of t task_uuid' key' poll_interval 0 "nat max_retries"]
    obtain i sr js sts where i: "i < nat max_retries" and p: "post_status t i = Inr sr"
      and rj: "read_jobs sr = Inr (js, sts)" and d: "list_all (\<lambda>s. s = JStr ''Done'') sts"
      by auto
    from done_poll_raw [OF rj d] i p show ?thesis by blast
  qed
  have returned: "length (filter is_download (fst (generate_3d_model c t r poll_interval max_retries))) = 1
        \<and> post_download t = Inr manifest"
    if "snd (generate_3d_model c t r poll_interval max_retries) = Inr (tid, manifest)"
  proof -
    from generate_shape [of c t r poll_interval max_retries] that
    obtain task_uuid' key' where g: "generate_3d_model c t r poll_interval max_retries =
          (fst (submit_generation_task c t r)
             @ fst (polling t task_uuid' key' poll_interval 0 (nat max_retries)),
           snd (polling t task_uuid' key' poll_interval 0 (nat max_retries)))"
      by auto
    with that have "polling t task_uuid' key' poll_interval 0 (nat max_retries) =
        (fst (polling t task_uuid' key' poll_interval 0 (nat max_retries)), Inr (tid, manifest))"
      by (simp add: prod_eq_iff)
    from polling_Inr [OF this] g no_dl show ?thesis by simp
  qed
  show ?thesis
  proof (intro conjI impI)
    assume a: "post_status t attempt = Inr status_result \<and>
      py_in ''error'' status_result = Inr False \<and>
      py_get status_result ''jobs'' (JList []) = Inr (JList jobs) \<and> jobs \<noteq> [] \<and>
      list_all (\<lambda>j. py_get j ''status'' JNull = Inr (JStr ''Done'')) jobs"
    then have a1: "post_status t attempt = Inr status_result"
      and a2: "py_in ''error'' status_result = Inr False"
      and a3: "py_get status_result ''jobs'' (JList []) = Inr (JList jobs)"
      and a4: "jobs \<noteq> []"
      and a5: "list_all (\<lambda>j. py_get j ''status'' JNull = Inr (JStr ''Done'')) jobs"
      by simp_all
    from forward [OF a1 a2 a3 a4 a5]
    show "\<exists>status. read_jobs status_result = Inr (jobs, status) \<and>
         list_all2 (\<lambda>j s. py_get j ''status'' JNull = Inr s) jobs status \<and>
         aggregate_status status = Agg_Done"
      by (rule conjunct1)
    from forward [OF a1 a2 a3 a4 a5]
    show "polling t task_uuid key poll_interval attempt (Suc left) =
        ([Post_Status key, Post_Download task_uuid],
         (case post_download t of
            Inl m \<Rightarrow> Inl (Exception (Fmt ''Download request failed: '' (JStr m)))
          | Inr manifest \<Rightarrow> Inr (task_uuid, manifest)))"
      by (rule conjunct2)
  next
    show "length (filter is_download (fst (generate_3d_model c t r poll_interval max_retries))) \<le> 1"
      by (rule count)
  next
    assume "list_ex is_download (fst (generate_3d_model c t r poll_interval max_retries))"
    then show "\<exists>i<nat max_retries. \<exists>sr js. post_status t i = Inr sr \<and>
           py_in ''error'' sr = Inr False \<and>
           py_get sr ''jobs'' (JList []) = Inr (JList js) \<and> js \<noteq> [] \<and>
           list_all (\<lambda>j. py_get j ''status'' JNull = Inr (JStr ''Done'')) js"
      by (rule only)
  next
    assume r: "snd (generate_3d_model c t r poll_interval max_retries) = Inr (tid, manifest)"
    from returned [OF r]
    show "length (filter is_download (fst (generate_3d_model c t r poll_interval max_retries))) = 1"
      by (rule conjunct1)
    from returned [OF r] show "post_download t = Inr manifest"
      by (rule conjunct2)
  qed
qed

text \<open>
  A run whose first poll finds one job still generating and whose second poll finds both
  jobs finished: one download request, after the second poll, and its answer returned.
\<close>

theorem all_done_fetches_manifest_once_witness:
  "polling
      \<lparr>read_file = \<lambda>p. None,
       post_rodin = Inr (JObj [(''uuid'', JStr ''task-1''),
                               (''jobs'', JObj [(''subscription_key'', JStr ''sub-1'')])]),
       post_status = \<lambda>i. if i = 0
          then Inr (JObj [(''jobs'', JList [JObj [(''status'', JStr ''Generating'')],
                                            JObj [(''status'', JStr ''Done'')]])])
          else Inr (JObj [(''jobs'', JList [JObj [(''status'', JStr ''Done'')],
                                            JObj [(''status'', JStr ''Done'')]])]),
       post_download = Inr (JObj [(''list'', JList [JObj [(''name'', JStr ''model.glb''),
                                                          (''url'', JStr ''https://cdn/model.glb'')]])]),
       time_sleep = \<lambda>s. None\<rparr>
      (JStr ''task-1'') (JStr ''sub-1'') 10 1 (Suc 58) =
     ([Post_Status (JStr ''sub-1''), Post_Download (JStr ''task-1'')],
      Inr (JStr ''task-1'', JObj [(''list'', JList [JObj [(''name'', JStr ''model.glb''),
                                        (''url'', JStr ''https://cdn/model.glb'')]])]))
   \<and> generate_3d_model \<lparr>api_key = Some ''secret''\<rparr>
      \<lparr>read_file = \<lambda>p. None,
       post_rodin = Inr (JObj [(''uuid'', JStr ''task-1''),
                               (''jobs'', JObj [(''subscription_key'', JStr ''sub-1'')])]),
       post_status = \<lambda>i. if i = 0
          then Inr (JObj [(''jobs'', JList [JObj [(''status'', JStr ''Generating'')],
                                            JObj [(''status'', JStr ''Done'')]])])
          else Inr (JObj [(''jobs'', JList [JObj [(''status'', JStr ''Done'')],
                                            JObj [(''status'', JStr ''Done'')]])]),
       post_download = Inr (JObj [(''list'', JList [JObj [(''name'', JStr ''model.glb''),
                                                          (''url'', JStr ''https://cdn/model.glb'')]])]),
       time_sleep = \<lambda>s. None\<rparr>
      default_request 10 60 =
     ([Post_Rodin [] (form_data default_request),
       Post_Status (JStr ''sub-1''), Sleep 10,
       Post_Status (JStr ''sub-1''), Post_Download (JStr ''task-1'')],
      Inr (JStr ''task-1'', JObj [(''list'', JList [JObj [(''name'', JStr ''model.glb''),
                                        (''url'', JStr ''https://cdn/model.glb'')]])]))
   \<and> length (filter is_download (fst (generate_3d_model \<lparr>api_key = Some ''secret''\<rparr>
      \<lparr>read_file = \<lambda>p. None,
       post_rodin = Inr (JObj [(''uuid'', JStr ''task-1''),
                               (''jobs'', JObj [(''subscription_key'', JStr ''sub-1'')])]),
       post_status = \<lambda>i. if i = 0
          then Inr (JObj [(''jobs'', JList [JObj [(''status'', JStr ''Generating'')],
                                            JObj [(''status'', JStr ''Done'')]])])
          else Inr (JObj [(''jobs'', JList [JObj [(''status'', JStr ''Done'')],
                                            JObj [(''status'', JStr ''Done'')]])]),
       post_download = Inr (JObj [(''list'', JList [JObj [(''name'', JStr ''model.glb''),
                                                          (''url'', JStr ''https://cdn/model.glb'')]])]),
       time_sleep = \<lambda>s. None\<rparr>
      default_request 10 60))) = 1
   \<and> (\<exists>i<nat 60. \<exists>sr js.
        post_status
          \<lparr>read_file = \<lambda>p. None,
       post_rodin = Inr (JObj [(''uuid'', JStr ''task-1''),
                               (''jobs'', JObj [(''subscription_key'', JStr ''sub-1'')])]),
       post_status = \<lambda>i. if i = 0
          then Inr (JObj [(''jobs'', JList [JObj [(''status'', JStr ''Generating'')],
                                            JObj [(''status'', JStr ''Done'')]])])
          else Inr (JObj [(''jobs'', JList [JObj [(''status'', JStr ''Done'')],
                                            JObj [(''status'', JStr ''Done'')]])]),
       post_download = Inr (JObj [(''list'', JList [JObj [(''name'', JStr ''model.glb''),
                                                          (''url'', JStr ''https://cdn/model.glb'')]])]),
       time_sleep = \<lambda>s. None\<rparr> i = Inr sr \<and>
        py_in ''error'' sr = Inr False \<and>
        py_get sr ''jobs'' (JList []) = Inr (JList js) \<and> js \<noteq> [] \<and>
        list_all (\<lambda>j. py_get j ''status'' JNull = Inr (JStr ''Done'')) js)"
proof -
  have run: "generate_3d_model \<lparr>api_key = Some ''secret''\<rparr>
      \<lparr>read_file = \<lambda>p. None,
       post_rodin = Inr (JObj [(''uuid'', JStr ''task-1''),
                               (''jobs'', JObj [(''subscription_key'', JStr ''sub-1'')])]),
       post_status = \<lambda>i. if i = 0
          then Inr (JObj [(''jobs'', JList [JObj [(''status'', JStr ''Generating'')],
                                            JObj [(''status'', JStr ''Done'')]])])
          else Inr (JObj [(''jobs'', JList [JObj [(''status'', JStr ''Done'')],
                                            JObj [(''status'', JStr ''Done'')]])]),
       post_download = Inr (JObj [(''list'', JList [JObj [(''name'', JStr ''model.glb''),
                                                          (''url'', JStr ''https://cdn/model.glb'')]])]),
       time_sleep = \<lambda>s. None\<rparr>
      default_request 10 60 =
     ([Post_Rodin [] (form_data default_request),
       Post_Status (JStr ''sub-1''), Sleep 10,
       Post_Status (JStr ''sub-1''), Post_Download (JStr ''task-1'')],
      Inr (JStr ''task-1'', JObj [(''list'', JList [JObj [(''name'', JStr ''model.glb''),
                                        (''url'', JStr ''https://cdn/model.glb'')]])]))"
    by (simp add: generate_3d_model_def submit_generation_task_def default_request_def
        poll_attempt_def check_task_status_def download_results_def read_jobs_def
        aggregate_status_def eval_nat_numeral)
  show ?thesis
    using all_done_fetches_manifest_once
      [where t = "\<lparr>read_file = \<lambda>p. None,
       post_rodin = Inr (JObj [(''uuid'', JStr ''task-1''),
                               (''jobs'', JObj [(''subscription_key'', JStr ''sub-1'')])]),
       post_status = \<lambda>i. if i = 0
          then Inr (JObj [(''jobs'', JList [JObj [(''status'', JStr ''Generating'')],
                                            JObj [(''status'', JStr ''Done'')]])])
          else Inr (JObj [(''jobs'', JList [JObj [(''status'', JStr ''Done'')],
                                            JObj [(''status'', JStr ''Done'')]])]),
       post_download = Inr (JObj [(''list'', JList [JObj [(''name'', JStr ''model.glb''),
                                                          (''url'', JStr ''https://cdn/model.glb'')]])]),
       time_sleep = \<lambda>s. None\<rparr>"
        and attempt = 1 and left = 58 and poll_interval = 10 and max_retries = 60
        and c = "\<lparr>api_key = Some ''secret''\<rparr>" and r = default_request
        and task_uuid = "JStr ''task-1''" and key = "JStr ''sub-1''"
        and tid = "JStr ''task-1''"
        and manifest = "JObj [(''list'', JList [JObj [(''name'', JStr ''model.glb''),
                                        (''url'', JStr ''https://cdn/model.glb'')]])]"
        and status_result = "JObj [(''jobs'', JList [JObj [(''status'', JStr ''Done'')],
                                            JObj [(''status'', JStr ''Done'')]])]"
        and jobs = "[JObj [(''status'', JStr ''Done'')], JObj [(''status'', JStr ''Done'')]]"]
      run
    by simp
qed

section \<open>Failures\<close>

lemma py_get_Inl: "py_get x k d = Inl e \<Longrightarrow> e = AttributeError"
  by (cases x) simp_all

lemma py_in_Inl: "py_in k x = Inl e \<Longrightarrow> e = TypeError"
  by (cases x) simp_all

lemma py_iter_Inl: "py_iter x = Inl e \<Longrightarrow> e = TypeError"
  by (cases x) simp_all

lemma job_statuses_Inl: "job_statuses js = Inl e \<Longrightarrow> e = AttributeError"
  by (induction js) (auto split: sum.splits dest: py_get_Inl)

lemma read_jobs_Inl_Fmt:
  "read_jobs status_result = Inl (Exception (Fmt p v)) \<Longrightarrow> p = ''Status check failed: ''"
  by (auto simp: read_jobs_def split: sum.splits if_splits
      dest: py_get_Inl py_in_Inl py_iter_Inl job_statuses_Inl)

lemma done_not_failed:
  "list_all (\<lambda>s. s = JStr ''Done'') status \<Longrightarrow> \<not> list_ex (\<lambda>s. s = JStr ''Failed'') status"
  by (induction status) auto

lemma sleep_exception_plain: "sleep_exception e \<noteq> Exception m"
  by (cases e) simp_all

lemma poll_attempt_Raise_Fmt:
  assumes "poll_attempt t task_uuid key poll_interval attempt = (evs, Raise (Exception (Fmt p v)))"
  shows "p = ''Status check failed: '' \<or> p = ''Task failed: '' \<or> p = ''Download request failed: ''"
proof (cases "post_status t attempt")
  case (Inl m)
  with assms show ?thesis by (auto simp: poll_attempt_def check_task_status_def)
next
  case (Inr status_result)
  show ?thesis
  proof (cases "read_jobs status_result")
    case (Inl x)
    with Inr assms read_jobs_Inl_Fmt [of status_result p v] show ?thesis
      by (auto simp: poll_attempt_def check_task_status_def)
  next
    case rj: (Inr q)
    obtain js status where q: "q = (js, status)" by (cases q)
    from Inr rj q assms show ?thesis
      by (cases "aggregate_status status")
        (auto simp: poll_attempt_def check_task_status_def download_results_def
          sleep_exception_plain
          split: sum.splits if_splits option.splits dest: py_get_Inl)
  qed
qed

lemma polling_Inl_Fmt:
  "polling t task_uuid key poll_interval attempt left = (evs, Inl (Exception (Fmt p v))) \<Longrightarrow>
     p = ''Status check failed: '' \<or> p = ''Task failed: '' \<or> p = ''Download request failed: ''"
proof (induction left arbitrary: attempt evs)
  case 0
  then show ?case by simp
next
  case (Suc left)
  obtain evs0 st where pa: "poll_attempt t task_uuid key poll_interval attempt = (evs0, st)"
    by (cases "poll_attempt t task_uuid key poll_interval attempt")
  obtain evs' res where rest: "polling t task_uuid key poll_interval (Suc attempt) left = (evs', res)"
    by (cases "polling t task_uuid key poll_interval (Suc attempt) left")
  show ?case
  proof (cases st)
    case (Raise x)
    with pa Suc.prems have "x = Exception (Fmt p v)" by simp
    with pa Raise show ?thesis by (auto dest: poll_attempt_Raise_Fmt)
  next
    case (Return r)
    with pa Suc.prems show ?thesis by simp
  next
    case Continue
    with pa rest Suc.prems have "res = Inl (Exception (Fmt p v))" by simp
    with Suc.IH rest show ?thesis by blast
  qed
qed

lemma polling_no_submission:
  "filter is_submission (fst (polling t task_uuid key poll_interval attempt left)) = []"
proof (induction left arbitrary: attempt)
  case 0
  then show ?case by simp
next
  case (Suc left)
  obtain evs0 st where pa: "poll_attempt t task_uuid key poll_interval attempt = (evs0, st)"
    by (cases "poll_attempt t task_uuid key poll_interval attempt")
  from poll_attempt_shape [OF pa] have "filter is_submission evs0 = []" by auto
  with pa Suc.IH [of "Suc attempt"] show ?case
    by (cases st) (simp_all add: case_prod_unfold)
qed

subsection \<open>A failed job\<close>

text \<open>
  What holds of a poll with a failed job: the second branch is taken and the loop ends in
  that attempt, without sleep or download request, raising \<^verbatim>\<open>Task failed:\<close> with the
  \<^verbatim>\<open>error\<close> entry of the last job of the list (or \<^verbatim>\<open>Unknown error\<close> when that job has none).
\<close>

lemma failed_job_stops_polling:
  assumes "post_status t attempt = Inr status_result"
    and "read_jobs status_result = Inr (jobs, status)"
    and "list_ex (\<lambda>s. s = JStr ''Failed'') status"
  shows "aggregate_status status = Agg_Failed"
    and "\<exists>kvs. last jobs = JObj kvs \<and>
           polling t task_uuid key poll_interval attempt (Suc left) =
             ([Post_Status key],
              Inl (Exception (Fmt ''Task failed: ''
                (case map_of kvs ''error'' of Some v \<Rightarrow> v | None \<Rightarrow> JStr ''Unknown error''))))"
proof -
  show agg: "aggregate_status status = Agg_Failed"
    using assms(3) done_not_failed [of status] by (auto simp: aggregate_status_def)
  from read_jobs_Inr [OF assms(2)] have "last jobs \<in> set jobs" and js: "job_statuses jobs = Inr status"
    by simp_all
  with job_statuses_dicts obtain kvs where kvs: "last jobs = JObj kvs" by blast
  have "polling t task_uuid key poll_interval attempt (Suc left) =
             ([Post_Status key],
              Inl (Exception (Fmt ''Task failed: ''
                (case map_of kvs ''error'' of Some v \<Rightarrow> v | None \<Rightarrow> JStr ''Unknown error''))))"
    using assms(1,2) agg kvs by (simp add: poll_attempt_def check_task_status_def)
  with kvs show "\<exists>kvs. last jobs = JObj kvs \<and>
           polling t task_uuid key poll_interval attempt (Suc left) =
             ([Post_Status key],
              Inl (Exception (Fmt ''Task failed: ''
                (case map_of kvs ''error'' of Some v \<Rightarrow> v | None \<Rightarrow> JStr ''Unknown error''))))"
    by blast
qed

text \<open>
  Claim C1. The claim has the error carry the failing job's detail. Here the first job
  failed with the detail \<^verbatim>\<open>out of memory\<close> and the second one is done: the run stops after
  its first poll, as claimed, but the exception reads \<^verbatim>\<open>Task failed: Unknown error\<close>,
  because the detail is read from the loop variable left by the preceding \<^verbatim>\<open>for\<close> loop, the
  last job of the list.
\<close>

theorem failed_job_detail_lost:
  "generate_3d_model \<lparr>api_key = Some ''secret''\<rparr>
     \<lparr>read_file = \<lambda>p. None,
      post_rodin = Inr (JObj [(''uuid'', JStr ''task-1''),
                              (''jobs'', JObj [(''subscription_key'', JStr ''sub-1'')])]),
      post_status = \<lambda>i. Inr (JObj [(''jobs'',
         JList [JObj [(''status'', JStr ''Failed''), (''error'', JStr ''out of memory'')],
                JObj [(''status'', JStr ''Done'')]])]),
      post_download = Inl ''unreachable'', time_sleep = \<lambda>s. None\<rparr>
     default_request 10 60 =
   ([Post_Rodin [] (form_data default_request), Post_Status (JStr ''sub-1'')],
    Inl (Exception (Fmt ''Task failed: '' (JStr ''Unknown error''))))"
  by (simp add: generate_3d_model_def submit_generation_task_def default_request_def
      poll_attempt_def check_task_status_def read_jobs_def aggregate_status_def
      eval_nat_numeral)

section \<open>Submission\<close>

lemma generate_submission_count:
  "length (filter is_submission (fst (generate_3d_model c t r poll_interval max_retries))) \<le> 1"
proof -
  have "length (filter is_submission (fst (submit_generation_task c t r))) \<le> 1"
    using submit_events [of c t r] by auto
  then show ?thesis
    using generate_shape [of c t r poll_interval max_retries]
      polling_no_submission [of t _ _ poll_interval 0 "nat max_retries"]
    by auto
qed

lemma read_images_Inl: "read_images t imgs = Inl e \<Longrightarrow> e = OSError"
  by (induction t imgs rule: read_images.induct) (auto split: option.splits sum.splits)

lemma generate_Inl_Fmt:
  assumes "snd (generate_3d_model c t r poll_interval max_retries) = Inl (Exception (Fmt p v))"
    and "p = ''API request failed: '' \<or> p = ''Task submission failed: ''"
  shows "(p = ''API request failed: '' \<and> (\<exists>m. post_rodin t = Inl m \<and> v = JStr m))
       \<or> (p = ''Task submission failed: '' \<and>
            (\<exists>kvs. post_rodin t = Inr (JObj kvs) \<and> map_of kvs ''error'' = Some v))"
proof -
  obtain evs res where sub: "submit_generation_task c t r = (evs, res)"
    by (cases "submit_generation_task c t r")
  show ?thesis
  proof (cases res)
    case (Inl x)
    with sub have "snd (generate_3d_model c t r poll_interval max_retries) = Inl x"
      by (simp add: generate_3d_model_def)
    with assms(1) have x: "x = Exception (Fmt p v)" by simp
    from sub [unfolded Inl x] show ?thesis
      by (auto simp: submit_generation_task_def split: if_splits sum.splits
          dest: read_images_Inl)
  next
    case (Inr submit_result)
    from sub [unfolded Inr] have resp: "post_rodin t = Inr submit_result"
      by (simp add: submit_generation_task_def split: if_splits sum.splits)
    note sub' = sub [unfolded Inr]
    show ?thesis
    proof (cases "py_in ''error'' submit_result")
      case (Inl e)
      with sub' have "snd (generate_3d_model c t r poll_interval max_retries) = Inl e"
        by (simp add: generate_3d_model_def)
      with assms(1) py_in_Inl [OF Inl] show ?thesis by simp
    next
      case has: (Inr has_error)
      show ?thesis
      proof (cases has_error)
        case True
        from has True have with_error: "py_in ''error'' submit_result = Inr True" by simp
        show ?thesis
        proof (cases "py_get submit_result ''error'' JNull")
          case (Inl e)
          with sub' with_error
          have "snd (generate_3d_model c t r poll_interval max_retries) = Inl e"
            by (simp add: generate_3d_model_def)
          with assms(1) py_get_Inl [OF Inl] show ?thesis by simp
        next
          case got: (Inr e)
          then obtain kvs where kvs: "submit_result = JObj kvs"
            by (cases submit_result) simp_all
          from with_error [unfolded kvs] obtain e' where e': "map_of kvs ''error'' = Some e'"
            by auto
          from sub' with_error got
          have "snd (generate_3d_model c t r poll_interval max_retries) =
                  Inl (Exception (Fmt ''Task submission failed: '' e))"
            by (simp add: generate_3d_model_def)
          with assms(1) have "p = ''Task submission failed: ''" "v = e" by simp_all
          moreover from got [unfolded kvs] e' have "e = e'" by simp
          ultimately show ?thesis using resp kvs e' by simp
        qed
      next
        case False
        from has False have no_error: "py_in ''error'' submit_result = Inr False" by simp
        show ?thesis
        proof (cases "py_get submit_result ''uuid'' JNull")
          case (Inl e)
          with sub' no_error have "snd (generate_3d_model c t r poll_interval max_retries) = Inl e"
            by (simp add: generate_3d_model_def)
          with assms(1) py_get_Inl [OF Inl] show ?thesis by simp
        next
          case uuid: (Inr task_uuid)
          show ?thesis
          proof (cases "py_get submit_result ''jobs'' JNull")
            case (Inl e)
            with sub' no_error uuid
            have "snd (generate_3d_model c t r poll_interval max_retries) = Inl e"
              by (simp add: generate_3d_model_def)
            with assms(1) py_get_Inl [OF Inl] show ?thesis by simp
          next
            case jobs: (Inr jobs)
            show ?thesis
            proof (cases "py_get jobs ''subscription_key'' JNull")
              case (Inl e)
              with sub' no_error uuid jobs
              have "snd (generate_3d_model c t r poll_interval max_retries) = Inl e"
                by (simp add: generate_3d_model_def)
              with assms(1) py_get_Inl [OF Inl] show ?thesis by simp
            next
              case key: (Inr key)
              from generate_after_submit [OF sub' no_error uuid jobs key] assms(1)
              have "polling t task_uuid key poll_interval 0 (nat max_retries) =
                      (fst (polling t task_uuid key poll_interval 0 (nat max_retries)),
                       Inl (Exception (Fmt p v)))"
                by (simp add: prod_eq_iff)
              from polling_Inl_Fmt [OF this] assms(2) show ?thesis by auto
            qed
          qed
        qed
      qed
    qed
  qed
qed

text \<open>
  Claim C7. A run makes at most one submission request. When the request itself fails, the
  run ends there with \<^verbatim>\<open>API request failed:\<close> and the text of the transport's exception;
  when the response has an \<^verbatim>\<open>error\<close> field, the run ends there with
  \<^verbatim>\<open>Task submission failed:\<close> and the value of that field, unchanged. A run ends with one of
  these two exceptions in no other case.
\<close>

theorem submission_error_exactly:
  "length (filter is_submission (fst (generate_3d_model c t r poll_interval max_retries))) \<le> 1
   \<and> (api_key c = Some k \<and> k \<noteq> [] \<and>
      read_images t (case images r of None \<Rightarrow> [] | Some imgs \<Rightarrow> imgs) = Inr files \<and>
      post_rodin t = Inl m \<longrightarrow>
        generate_3d_model c t r poll_interval max_retries =
          ([Post_Rodin files (form_data r)],
           Inl (Exception (Fmt ''API request failed: '' (JStr m)))))
   \<and> (api_key c = Some k \<and> k \<noteq> [] \<and>
      read_images t (case images r of None \<Rightarrow> [] | Some imgs \<Rightarrow> imgs) = Inr files \<and>
      post_rodin t = Inr (JObj kvs) \<and> map_of kvs ''error'' = Some e \<longrightarrow>
        generate_3d_model c t r poll_interval max_retries =
          ([Post_Rodin files (form_data r)],
           Inl (Exception (Fmt ''Task submission failed: '' e))))
   \<and> (snd (generate_3d_model c t r poll_interval max_retries) = Inl (Exception (Fmt p v)) \<and>
      (p = ''API request failed: '' \<or> p = ''Task submission failed: '') \<longrightarrow>
        (p = ''API request failed: '' \<and> (\<exists>m'. post_rodin t = Inl m' \<and> v = JStr m'))
        \<or> (p = ''Task submission failed: '' \<and>
             (\<exists>kvs'. post_rodin t = Inr (JObj kvs') \<and> map_of kvs' ''error'' = Some v)))"
proof -
  have transport: "generate_3d_model c t r poll_interval max_retries =
          ([Post_Rodin files (form_data r)],
           Inl (Exception (Fmt ''API request failed: '' (JStr m))))"
    if "api_key c = Some k" "k \<noteq> []"
      "read_images t (case images r of None \<Rightarrow> [] | Some imgs \<Rightarrow> imgs) = Inr files"
      "post_rodin t = Inl m"
    using submit_reaches_transport [OF that(1,2,3)] that(4)
    by (simp add: generate_3d_model_def)
  have service: "generate_3d_model c t r poll_interval max_retries =
          ([Post_Rodin files (form_data r)],
           Inl (Exception (Fmt ''Task submission failed: '' e)))"
    if "api_key c = Some k" "k \<noteq> []"
      "read_images t (case images r of None \<Rightarrow> [] | Some imgs \<Rightarrow> imgs) = Inr files"
      "post_rodin t = Inr (JObj kvs)" "map_of kvs ''error'' = Some e"
    using submit_reaches_transport [OF that(1,2,3)] that(4,5)
    by (simp add: generate_3d_model_def)
  have converse: "(p = ''API request failed: '' \<and> (\<exists>m'. post_rodin t = Inl m' \<and> v = JStr m'))
        \<or> (p = ''Task submission failed: '' \<and>
             (\<exists>kvs'. post_rodin t = Inr (JObj kvs') \<and> map_of kvs' ''error'' = Some v))"
    if "snd (generate_3d_model c t r poll_interval max_retries) = Inl (Exception (Fmt p v))"
      "p = ''API request failed: '' \<or> p = ''Task submission failed: ''"
    using that by (rule generate_Inl_Fmt)
  show ?thesis
  proof (intro conjI impI)
    show "length (filter is_submission (fst (generate_3d_model c t r poll_interval max_retries))) \<le> 1"
      by (rule generate_submission_count)
  next
    assume a: "api_key c = Some k \<and> k \<noteq> [] \<and>
      read_images t (case images r of None \<Rightarrow> [] | Some imgs \<Rightarrow> imgs) = Inr files \<and>
      post_rodin t = Inl m"
    from a have a1: "api_key c = Some k" by (rule conjunct1)
    from a have a2: "k \<noteq> []" by (elim conjE)
    from a have a3: "read_images t (case images r of None \<Rightarrow> [] | Some imgs \<Rightarrow> imgs) = Inr files"
      by (elim conjE)
    from a have a4: "post_rodin t = Inl m" by (elim conjE)
    show "generate_3d_model c t r poll_interval max_retries =
          ([Post_Rodin files (form_data r)],
           Inl (Exception (Fmt ''API request failed: '' (JStr m))))"
      by (rule transport [OF a1 a2 a3 a4])
  next
    assume a: "api_key c = Some k \<and> k \<noteq> [] \<and>
      read_images t (case images r of None \<Rightarrow> [] | Some imgs \<Rightarrow> imgs) = Inr files \<and>
      post_rodin t = Inr (JObj kvs) \<and> map_of kvs ''error'' = Some e"
    from a have a1: "api_key c = Some k" by (rule conjunct1)
    from a have a2: "k \<noteq> []" by (elim conjE)
    from a have a3: "read_images t (case images r of None \<Rightarrow> [] | Some imgs \<Rightarrow> imgs) = Inr files"
      by (elim conjE)
    from a have a4: "post_rodin t = Inr (JObj kvs)" by (elim conjE)
    from a have a5: "map_of kvs ''error'' = Some e" by (elim conjE)
    show "generate_3d_model c t r poll_interval max_retries =
          ([Post_Rodin files (form_data r)],
           Inl (Exception (Fmt ''Task submission failed: '' e)))"
      by (rule service [OF a1 a2 a3 a4 a5])
  next
    assume a: "snd (generate_3d_model c t r poll_interval max_retries) = Inl (Exception (Fmt p v)) \<and>
      (p = ''API request failed: '' \<or> p = ''Task submission failed: '')"
    show "(p = ''API request failed: '' \<and> (\<exists>m'. post_rodin t = Inl m' \<and> v = JStr m'))
        \<or> (p = ''Task submission failed: '' \<and>
             (\<exists>kvs'. post_rodin t = Inr (JObj kvs') \<and> map_of kvs' ''error'' = Some v))"
      by (rule converse [OF conjunct1 [OF a] conjunct2 [OF a]])
  qed
qed

text \<open>
  A rejected request (HTTP 401) and an accepted request answered with an error field:
  one submission each, no poll, and the text of the failure in the exception.
\<close>

theorem submission_error_exactly_witness:
  "generate_3d_model \<lparr>api_key = Some ''secret''\<rparr>
     \<lparr>read_file = \<lambda>p. None, post_rodin = Inl ''401 Client Error: Unauthorized'',
      post_status = \<lambda>i. Inl [], post_download = Inl [],
       time_sleep = \<lambda>s. None\<rparr>
     default_request 10 60 =
   ([Post_Rodin [] (form_data default_request)],
    Inl (Exception (Fmt ''API request failed: '' (JStr ''401 Client Error: Unauthorized''))))
   \<and> generate_3d_model \<lparr>api_key = Some ''secret''\<rparr>
     \<lparr>read_file = \<lambda>p. None,
      post_rodin = Inr (JObj [(''error'', JStr ''INSUFFICIENT_FUND''), (''uuid'', JNull)]),
      post_status = \<lambda>i. Inl [], post_download = Inl [],
       time_sleep = \<lambda>s. None\<rparr>
     default_request 10 60 =
   ([Post_Rodin [] (form_data default_request)],
    Inl (Exception (Fmt ''Task submission failed: '' (JStr ''INSUFFICIENT_FUND''))))"
  using
    submission_error_exactly
      [where c = "\<lparr>api_key = Some ''secret''\<rparr>" and k = "''secret''" and r = default_request
        and files = "[]" and m = "''401 Client Error: Unauthorized''"
        and p = "''API request failed: ''" and v = "JStr ''401 Client Error: Unauthorized''"
        and kvs = "[]" and e = JNull
        and poll_interval = 10 and max_retries = 60
        and t = "\<lparr>read_file = \<lambda>p. None, post_rodin = Inl ''401 Client Error: Unauthorized'',
      post_status = \<lambda>i. Inl [], post_download = Inl [],
       time_sleep = \<lambda>s. None\<rparr>"]
    submission_error_exactly
      [where c = "\<lparr>api_key = Some ''secret''\<rparr>" and k = "''secret''" and r = default_request
        and files = "[]" and e = "JStr ''INSUFFICIENT_FUND''"
        and kvs = "[(''error'', JStr ''INSUFFICIENT_FUND''), (''uuid'', JNull)]"
        and p = "''Task submission failed: ''" and v = "JStr ''INSUFFICIENT_FUND''"
        and m = "[]"
        and poll_interval = 10 and max_retries = 60
        and t = "\<lparr>read_file = \<lambda>p. None,
      post_rodin = Inr (JObj [(''error'', JStr ''INSUFFICIENT_FUND''), (''uuid'', JNull)]),
      post_status = \<lambda>i. Inl [], post_download = Inl [],
       time_sleep = \<lambda>s. None\<rparr>"]
  by (simp add: default_request_def)

section \<open>The handle taken from the submission response\<close>

text \<open>
  Claim C2, as stated, fails. The response below has no error field and its \<^verbatim>\<open>jobs\<close> entry
  has no \<^verbatim>\<open>subscription_key\<close>; the run raises no submission error: it polls with the key
  \<^verbatim>\<open>None\<close>, finds the jobs done, and returns.
\<close>

theorem missing_subscription_key_counterexample:
  "generate_3d_model \<lparr>api_key = Some ''secret''\<rparr>
     \<lparr>read_file = \<lambda>p. None,
      post_rodin = Inr (JObj [(''uuid'', JStr ''task-1''),
                              (''jobs'', JObj [(''uuids'', JList [JStr ''job-1''])])]),
      post_status = \<lambda>i. Inr (JObj [(''jobs'', JList [JObj [(''status'', JStr ''Done'')]])]),
      post_download = Inr (JObj [(''list'', JList [])]), time_sleep = \<lambda>s. None\<rparr>
     default_request 10 60 =
   ([Post_Rodin [] (form_data default_request), Post_Status JNull,
     Post_Download (JStr ''task-1'')],
    Inr (JStr ''task-1'', JObj [(''list'', JList [])]))"
  by (simp add: generate_3d_model_def submit_generation_task_def default_request_def
      poll_attempt_def check_task_status_def download_results_def read_jobs_def
      aggregate_status_def eval_nat_numeral)

text \<open>
  Claim C2, amended. For a submission response that is a JSON object without an error
  field: when it has no \<^verbatim>\<open>jobs\<close> entry, or a null one, the run ends right after the
  submission with an \<^verbatim>\<open>AttributeError\<close> and makes no poll; when \<^verbatim>\<open>jobs\<close> is an object, the
  run goes on to poll with whatever \<^verbatim>\<open>subscription_key\<close> that object holds, \<^verbatim>\<open>None\<close> when it
  holds none, and with the \<^verbatim>\<open>uuid\<close> of the response as task identifier, \<^verbatim>\<open>None\<close> when there
  is none. Neither value is checked.
\<close>

theorem missing_subscription_key_unchecked:
  assumes "submit_generation_task c t r = (evs, Inr (JObj kvs))"
    and "map_of kvs ''error'' = None"
  shows "(map_of kvs ''jobs'' = None \<or> map_of kvs ''jobs'' = Some JNull \<longrightarrow>
            generate_3d_model c t r poll_interval max_retries = (evs, Inl AttributeError))
       \<and> (map_of kvs ''jobs'' = Some (JObj jobs) \<longrightarrow>
            generate_3d_model c t r poll_interval max_retries =
              (evs @ fst (polling t
                            (case map_of kvs ''uuid'' of Some u \<Rightarrow> u | None \<Rightarrow> JNull)
                            (case map_of jobs ''subscription_key'' of Some k \<Rightarrow> k | None \<Rightarrow> JNull)
                            poll_interval 0 (nat max_retries)),
               snd (polling t
                            (case map_of kvs ''uuid'' of Some u \<Rightarrow> u | None \<Rightarrow> JNull)
                            (case map_of jobs ''subscription_key'' of Some k \<Rightarrow> k | None \<Rightarrow> JNull)
                            poll_interval 0 (nat max_retries))))"
proof (intro conjI impI)
  assume "map_of kvs ''jobs'' = None \<or> map_of kvs ''jobs'' = Some JNull"
  then show "generate_3d_model c t r poll_interval max_retries = (evs, Inl AttributeError)"
    using assms by (auto simp: generate_3d_model_def)
next
  assume j: "map_of kvs ''jobs'' = Some (JObj jobs)"
  show "generate_3d_model c t r poll_interval max_retries =
              (evs @ fst (polling t
                            (case map_of kvs ''uuid'' of Some u \<Rightarrow> u | None \<Rightarrow> JNull)
                            (case map_of jobs ''subscription_key'' of Some k \<Rightarrow> k | None \<Rightarrow> JNull)
                            poll_interval 0 (nat max_retries)),
               snd (polling t
                            (case map_of kvs ''uuid'' of Some u \<Rightarrow> u | None \<Rightarrow> JNull)
                            (case map_of jobs ''subscription_key'' of Some k \<Rightarrow> k | None \<Rightarrow> JNull)
                            poll_interval 0 (nat max_retries)))"
  proof -
    have e: "py_in ''error'' (JObj kvs) = Inr False"
      by (simp add: assms(2))
    have u: "py_get (JObj kvs) ''uuid'' JNull =
               Inr (case map_of kvs ''uuid'' of Some u \<Rightarrow> u | None \<Rightarrow> JNull)"
      by simp
    have jj: "py_get (JObj kvs) ''jobs'' JNull = Inr (JObj jobs)"
      by (simp add: j)
    have k: "py_get (JObj jobs) ''subscription_key'' JNull =
               Inr (case map_of jobs ''subscription_key'' of Some k \<Rightarrow> k | None \<Rightarrow> JNull)"
      by simp
    show ?thesis by (rule generate_after_submit [OF assms(1) e u jj k])
  qed
qed

text \<open>
  A response without \<^verbatim>\<open>jobs\<close> ends the run with \<^verbatim>\<open>AttributeError\<close> after the submission; a
  response whose \<^verbatim>\<open>jobs\<close> lacks the key is polled with \<^verbatim>\<open>None\<close> (here once, then the timeout).
\<close>

theorem missing_subscription_key_unchecked_witness:
  "generate_3d_model \<lparr>api_key = Some ''secret''\<rparr>
     \<lparr>read_file = \<lambda>p. None,
      post_rodin = Inr (JObj [(''uuid'', JStr ''task-1'')]),
      post_status = \<lambda>i. Inr (JObj [(''jobs'', JList [JObj [(''status'', JStr ''Waiting'')]])]),
      post_download = Inl [], time_sleep = \<lambda>s. None\<rparr>
     default_request 10 1 =
   ([Post_Rodin [] (form_data default_request)], Inl AttributeError)
   \<and> generate_3d_model \<lparr>api_key = Some ''secret''\<rparr>
     \<lparr>read_file = \<lambda>p. None,
      post_rodin = Inr (JObj [(''uuid'', JStr ''task-1''), (''jobs'', JObj [])]),
      post_status = \<lambda>i. Inr (JObj [(''jobs'', JList [JObj [(''status'', JStr ''Waiting'')]])]),
      post_download = Inl [], time_sleep = \<lambda>s. None\<rparr>
     default_request 10 1 =
   ([Post_Rodin [] (form_data default_request), Post_Status JNull, Sleep 10],
    Inl (Exception (Text ''Task processing timed out'')))"
  using
    missing_subscription_key_unchecked
      [where c = "\<lparr>api_key = Some ''secret''\<rparr>" and r = default_request
        and evs = "[Post_Rodin [] (form_data default_request)]"
        and kvs = "[(''uuid'', JStr ''task-1'')]" and jobs = "[]"
        and poll_interval = 10 and max_retries = 1
        and t = "\<lparr>read_file = \<lambda>p. None,
      post_rodin = Inr (JObj [(''uuid'', JStr ''task-1'')]),
      post_status = \<lambda>i. Inr (JObj [(''jobs'', JList [JObj [(''status'', JStr ''Waiting'')]])]),
      post_download = Inl [], time_sleep = \<lambda>s. None\<rparr>"]
    missing_subscription_key_unchecked
      [where c = "\<lparr>api_key = Some ''secret''\<rparr>" and r = default_request
        and evs = "[Post_Rodin [] (form_data default_request)]"
        and kvs = "[(''uuid'', JStr ''task-1''), (''jobs'', JObj [])]" and jobs = "[]"
        and poll_interval = 10 and max_retries = 1
        and t = "\<lparr>read_file = \<lambda>p. None,
      post_rodin = Inr (JObj [(''uuid'', JStr ''task-1''), (''jobs'', JObj [])]),
      post_status = \<lambda>i. Inr (JObj [(''jobs'', JList [JObj [(''status'', JStr ''Waiting'')]])]),
      post_download = Inl [], time_sleep = \<lambda>s. None\<rparr>"]
  by (simp add: submit_generation_task_def default_request_def poll_attempt_def
      check_task_status_def read_jobs_def aggregate_status_def)

section \<open>The submitted form fields\<close>






section \<open>Downloading the assets\<close>

lemma local_filename_named:
  "n \<noteq> [] \<Longrightarrow> local_filename url (JStr n) = Inr n"
  by (simp add: local_filename_def)

lemma local_filename_from_url:
  "\<not> truthy name \<Longrightarrow>
     local_filename (JStr u) name = Inr (basename (takeWhile (\<lambda>c. c \<noteq> CHR ''?'') u))"
  by (simp add: local_filename_def)

lemma download_model_tried:
  assumes "makedirs st output_dir" and "local_filename model_url filename = Inr n"
  shows "download_model st model_url output_dir filename =
           Inr (try_download st model_url (path_join output_dir n) n)"
  using assms by (simp add: download_model_def)

lemma try_download_Downloaded:
  "(try_download st model_url output_path n = Downloaded p) =
     (p = output_path \<and>
      (\<exists>content. http_get st model_url = Inr content \<and> write_file st output_path content = None))"
  by (auto simp: try_download_def split: sum.splits option.splits)

lemma local_filename_cases:
  assumes "local_filename url name = Inr n"
  shows "name = JStr n \<and> n \<noteq> [] \<or>
         \<not> truthy name \<and> (\<exists>u'. url = JStr u' \<and> n = basename (takeWhile (\<lambda>c. c \<noteq> CHR ''?'') u'))"
proof (cases "truthy name")
  case True
  with assms show ?thesis by (cases name) (auto simp: local_filename_def)
next
  case False
  with assms show ?thesis by (cases url) (auto simp: local_filename_def)
qed

lemma try_download_cases:
  "try_download st url path n = Downloaded path \<and>
     (\<exists>content. http_get st url = Inr content \<and> write_file st path content = None)
   \<or> (\<exists>m. try_download st url path n = Failed_Download n m \<and>
         (http_get st url = Inl m \<or>
          (\<exists>content. http_get st url = Inr content \<and> write_file st path content = Some m)))"
  by (auto simp: try_download_def split: sum.splits option.splits)

lemma download_all_continues:
  assumes "makedirs st dir"
    and "\<forall>fi\<in>set file_list. \<exists>url name.
           py_get fi ''url'' JNull = Inr url \<and> py_get fi ''name'' JNull = Inr name \<and>
           ((\<exists>n. name = JStr n \<and> n \<noteq> []) \<or> (\<not> truthy name \<and> (\<exists>u. url = JStr u)))"
  shows "\<exists>ocs. download_all st dir file_list = (ocs, None) \<and>
           list_all2 (\<lambda>fi oc. \<exists>url name n.
               py_get fi ''url'' JNull = Inr url \<and> py_get fi ''name'' JNull = Inr name \<and>
               local_filename url name = Inr n \<and>
               oc = try_download st url (path_join dir n) n)
             file_list ocs"
  using assms(2)
proof (induction file_list)
  case Nil
  then show ?case by simp
next
  case (Cons fi rest)
  from Cons.prems obtain url name where
    url: "py_get fi ''url'' JNull = Inr url" and name: "py_get fi ''name'' JNull = Inr name"
    and ok: "(\<exists>n. name = JStr n \<and> n \<noteq> []) \<or> (\<not> truthy name \<and> (\<exists>u. url = JStr u))"
    by auto
  from ok obtain n where n: "local_filename url name = Inr n"
    using local_filename_named local_filename_from_url by blast
  from Cons.prems have "\<forall>fi\<in>set rest. \<exists>url name.
           py_get fi ''url'' JNull = Inr url \<and> py_get fi ''name'' JNull = Inr name \<and>
           ((\<exists>n. name = JStr n \<and> n \<noteq> []) \<or> (\<not> truthy name \<and> (\<exists>u. url = JStr u)))"
    by simp
  from Cons.IH [OF this] obtain ocs where
    rest: "download_all st dir rest = (ocs, None)"
    and all: "list_all2 (\<lambda>fi oc. \<exists>url name n.
               py_get fi ''url'' JNull = Inr url \<and> py_get fi ''name'' JNull = Inr name \<and>
               local_filename url name = Inr n \<and>
               oc = try_download st url (path_join dir n) n) rest ocs"
    by blast
  have "download_all st dir (fi # rest) = (try_download st url (path_join dir n) n # ocs, None)"
    using url name rest download_model_tried [OF assms(1) n] by simp
  with url name n all show ?case by auto
qed

lemma list_files_dicts:
  "\<forall>fi\<in>set file_list. \<exists>kvs. fi = JObj kvs \<Longrightarrow> list_files file_list = None"
  by (induction file_list) auto

text \<open>
  Claim C8, as stated, fails. Both URLs below can be fetched, but the output directory
  cannot be created: \<^verbatim>\<open>os.makedirs\<close> stands before the \<^verbatim>\<open>try\<close>, its \<^verbatim>\<open>OSError\<close> leaves
  \<^verbatim>\<open>download_model\<close> and the loop at the first entry, and the second entry is never tried.
\<close>

theorem download_abort_counterexample:
  "main_files
     \<lparr>makedirs = \<lambda>d. False, http_get = \<lambda>u. Inr ''glTF'', write_file = \<lambda>p content. None\<rparr>
     (Some ''/proc/out'') (JStr ''task-1'')
     [JObj [(''name'', JStr ''a.glb''), (''url'', JStr ''https://cdn/a.glb'')],
      JObj [(''name'', JStr ''b.glb''), (''url'', JStr ''https://cdn/b.glb'')]]
   = ([], Some OSError)"
  by (simp add: main_files_def download_model_def)

text \<open>
  Claim C8, amended. When the output directory of the task can be created and every entry
  of the manifest is a dict with a non-empty string \<^verbatim>\<open>name\<close>, or with no (or an empty) \<^verbatim>\<open>name\<close>
  and a string \<^verbatim>\<open>url\<close>, \<^verbatim>\<open>main\<close> processes every entry and raises nothing: each entry gets
  one outcome, in the order of the manifest. The outcome of an entry is the file written
  under its name (the \<^verbatim>\<open>name\<close>, or the last component of the URL before any \<^verbatim>\<open>?\<close>) when its
  request and the writing succeed, and else the failure of its own request or writing,
  reported for that entry alone.
\<close>

theorem download_continues_past_failures:
  assumes "out \<noteq> []" and "makedirs st (path_join out u)"
    and "\<forall>fi\<in>set file_list. \<exists>url name.
           py_get fi ''url'' JNull = Inr url \<and> py_get fi ''name'' JNull = Inr name \<and>
           ((\<exists>n. name = JStr n \<and> n \<noteq> []) \<or> (\<not> truthy name \<and> (\<exists>u. url = JStr u)))"
  shows "\<exists>ocs. main_files st (Some out) (JStr u) file_list = (ocs, None) \<and>
           list_all2
             (\<lambda>fi oc. \<exists>url name n.
               py_get fi ''url'' JNull = Inr url \<and> py_get fi ''name'' JNull = Inr name \<and>
               (name = JStr n \<and> n \<noteq> [] \<or>
                \<not> truthy name \<and>
                (\<exists>u'. url = JStr u' \<and> n = basename (takeWhile (\<lambda>c. c \<noteq> CHR ''?'') u'))) \<and>
               (oc = Downloaded (path_join (path_join out u) n) \<and>
                (\<exists>content. http_get st url = Inr content \<and>
                           write_file st (path_join (path_join out u) n) content = None) \<or>
                (\<exists>m. oc = Failed_Download n m \<and>
                     (http_get st url = Inl m \<or>
                      (\<exists>content. http_get st url = Inr content \<and>
                                 write_file st (path_join (path_join out u) n) content = Some m)))))
             file_list ocs"
proof (cases "file_list = []")
  case True
  then show ?thesis by (simp add: main_files_def)
next
  case False
  have "\<forall>fi\<in>set file_list. \<exists>kvs. fi = JObj kvs"
  proof
    fix fi assume "fi \<in> set file_list"
    with assms(3) obtain url where "py_get fi ''url'' JNull = Inr url" by blast
    then show "\<exists>kvs. fi = JObj kvs" by (cases fi) simp_all
  qed
  then have listed: "list_files file_list = None" by (rule list_files_dicts)
  have run: "main_files st (Some out) (JStr u) file_list =
               download_all st (path_join out u) file_list"
    using False listed assms(1) by (simp add: main_files_def)
  from download_all_continues [OF assms(2,3)] obtain ocs where
    ocs: "download_all st (path_join out u) file_list = (ocs, None)"
    and all: "list_all2 (\<lambda>fi oc. \<exists>url name n.
               py_get fi ''url'' JNull = Inr url \<and> py_get fi ''name'' JNull = Inr name \<and>
               local_filename url name = Inr n \<and>
               oc = try_download st url (path_join (path_join out u) n) n)
             file_list ocs"
    by blast
  have "list_all2
             (\<lambda>fi oc. \<exists>url name n.
               py_get fi ''url'' JNull = Inr url \<and> py_get fi ''name'' JNull = Inr name \<and>
               (name = JStr n \<and> n \<noteq> [] \<or>
                \<not> truthy name \<and>
                (\<exists>u'. url = JStr u' \<and> n = basename (takeWhile (\<lambda>c. c \<noteq> CHR ''?'') u'))) \<and>
               (oc = Downloaded (path_join (path_join out u) n) \<and>
                (\<exists>content. http_get st url = Inr content \<and>
                           write_file st (path_join (path_join out u) n) content = None) \<or>
                (\<exists>m. oc = Failed_Download n m \<and>
                     (http_get st url = Inl m \<or>
                      (\<exists>content. http_get st url = Inr content \<and>
                                 write_file st (path_join (path_join out u) n) content = Some m)))))
             file_list ocs"
    using all
  proof (rule list_all2_mono)
    fix fi oc
    assume "\<exists>url name n.
               py_get fi ''url'' JNull = Inr url \<and> py_get fi ''name'' JNull = Inr name \<and>
               local_filename url name = Inr n \<and>
               oc = try_download st url (path_join (path_join out u) n) n"
    then obtain url name n where g: "py_get fi ''url'' JNull = Inr url"
      "py_get fi ''name'' JNull = Inr name" and l: "local_filename url name = Inr n"
      and oc: "oc = try_download st url (path_join (path_join out u) n) n"
      by blast
    from local_filename_cases [OF l] try_download_cases [of st url "path_join (path_join out u) n" n]
      g oc
    show "\<exists>url name n.
               py_get fi ''url'' JNull = Inr url \<and> py_get fi ''name'' JNull = Inr name \<and>
               (name = JStr n \<and> n \<noteq> [] \<or>
                \<not> truthy name \<and>
                (\<exists>u'. url = JStr u' \<and> n = basename (takeWhile (\<lambda>c. c \<noteq> CHR ''?'') u'))) \<and>
               (oc = Downloaded (path_join (path_join out u) n) \<and>
                (\<exists>content. http_get st url = Inr content \<and>
                           write_file st (path_join (path_join out u) n) content = None) \<or>
                (\<exists>m. oc = Failed_Download n m \<and>
                     (http_get st url = Inl m \<or>
                      (\<exists>content. http_get st url = Inr content \<and>
                                 write_file st (path_join (path_join out u) n) content = Some m))))"
      by (intro exI [of _ url] exI [of _ name] exI [of _ n]) auto
  qed
  with run ocs show ?thesis by auto
qed

text \<open>
  Two reachable URLs and an unreachable one between them: two files written, one failure
  reported, nothing raised. The third entry has no name; its file name comes from its URL.
\<close>

theorem download_continues_past_failures_witness:
  "main_files
     \<lparr>makedirs = \<lambda>d. True,
      http_get = \<lambda>u. if u = JStr ''https://cdn/b.glb'' then Inl ''ConnectionError''
                      else Inr ''bytes'',
      write_file = \<lambda>p content. None\<rparr>
     (Some ''out'') (JStr ''task-1'')
     [JObj [(''name'', JStr ''a.glb''), (''url'', JStr ''https://cdn/a.glb'')],
      JObj [(''name'', JStr ''b.glb''), (''url'', JStr ''https://cdn/b.glb'')],
      JObj [(''url'', JStr ''https://cdn/c.png?sig=1'')]]
   = ([Downloaded ''out/task-1/a.glb'', Failed_Download ''b.glb'' ''ConnectionError'',
       Downloaded ''out/task-1/c.png''], None)
   \<and> (\<exists>ocs. main_files
     \<lparr>makedirs = \<lambda>d. True,
      http_get = \<lambda>u. if u = JStr ''https://cdn/b.glb'' then Inl ''ConnectionError''
                      else Inr ''bytes'',
      write_file = \<lambda>p content. None\<rparr>
     (Some ''out'') (JStr ''task-1'')
     [JObj [(''name'', JStr ''a.glb''), (''url'', JStr ''https://cdn/a.glb'')],
      JObj [(''name'', JStr ''b.glb''), (''url'', JStr ''https://cdn/b.glb'')],
      JObj [(''url'', JStr ''https://cdn/c.png?sig=1'')]] = (ocs, None) \<and> length ocs = 3)"
proof -
  have run: "main_files
     \<lparr>makedirs = \<lambda>d. True,
      http_get = \<lambda>u. if u = JStr ''https://cdn/b.glb'' then Inl ''ConnectionError''
                      else Inr ''bytes'',
      write_file = \<lambda>p content. None\<rparr>
     (Some ''out'') (JStr ''task-1'')
     [JObj [(''name'', JStr ''a.glb''), (''url'', JStr ''https://cdn/a.glb'')],
      JObj [(''name'', JStr ''b.glb''), (''url'', JStr ''https://cdn/b.glb'')],
      JObj [(''url'', JStr ''https://cdn/c.png?sig=1'')]]
   = ([Downloaded ''out/task-1/a.glb'', Failed_Download ''b.glb'' ''ConnectionError'',
       Downloaded ''out/task-1/c.png''], None)"
    by (simp add: main_files_def download_model_def local_filename_def try_download_def
        path_join_def basename_def)
  have "\<exists>ocs. main_files
     \<lparr>makedirs = \<lambda>d. True,
      http_get = \<lambda>u. if u = JStr ''https://cdn/b.glb'' then Inl ''ConnectionError''
                      else Inr ''bytes'',
      write_file = \<lambda>p content. None\<rparr>
     (Some ''out'') (JStr ''task-1'')
     [JObj [(''name'', JStr ''a.glb''), (''url'', JStr ''https://cdn/a.glb'')],
      JObj [(''name'', JStr ''b.glb''), (''url'', JStr ''https://cdn/b.glb'')],
      JObj [(''url'', JStr ''https://cdn/c.png?sig=1'')]] = (ocs, None) \<and> length ocs = 3"
    using download_continues_past_failures
      [where st = "\<lparr>makedirs = \<lambda>d. True,
      http_get = \<lambda>u. if u = JStr ''https://cdn/b.glb'' then Inl ''ConnectionError''
                      else Inr ''bytes'',
      write_file = \<lambda>p content. None\<rparr>"
        and out = "''out''" and u = "''task-1''"
        and file_list = "[JObj [(''name'', JStr ''a.glb''), (''url'', JStr ''https://cdn/a.glb'')],
      JObj [(''name'', JStr ''b.glb''), (''url'', JStr ''https://cdn/b.glb'')],
      JObj [(''url'', JStr ''https://cdn/c.png?sig=1'')]]"]
    by (auto dest: list_all2_lengthD)
  with run show ?thesis by (intro conjI)
qed

end
